theory Spec2Isabelle
  imports Complex_Main
begin

text \<open>
  Kinematic calibration of a robot work-cell (robot_cal_tools): loading pose measurements
  from a YAML file, validating a calibration result against measurements, the statistics
  of that validation, equality of observations, and the masking of frozen parameters in
  the optimization. Functions of the example program and of \<open>types.h\<close> are translated
  from their source; the library calls they make (Eigen, yaml-cpp, boost accumulators) are
  written out as far as the program uses them.
\<close>

section \<open>Numbers\<close>

text \<open>
  A C++ \<open>double\<close> is read as the real number it stands for: rounding and overflow are
  not modelled. The one thing the reals lack and the program can produce is the result of
  a division by zero (an infinity or a NaN). \<open>NonFinite\<close> stands for such a value.
  An arithmetic operation with a \<open>NonFinite\<close> operand is \<open>NonFinite\<close> again; this is
  what IEEE arithmetic gives in every expression below, where a division's numerator is
  never finite when its denominator is not. Only the comparison of observations tells a
  NaN from an infinity; its coordinates have a type of their own, \<open>double\<close>, further
  down.
\<close>

datatype fval = Fin real | NonFinite

fun fsub :: "fval \<Rightarrow> fval \<Rightarrow> fval" where
  "fsub (Fin x) (Fin y) = Fin (x - y)"
| "fsub _ _ = NonFinite"

fun fmul :: "fval \<Rightarrow> fval \<Rightarrow> fval" where
  "fmul (Fin x) (Fin y) = Fin (x * y)"
| "fmul _ _ = NonFinite"

fun fdiv :: "fval \<Rightarrow> fval \<Rightarrow> fval" where
  "fdiv (Fin x) (Fin y) = (if y = 0 then NonFinite else Fin (x / y))"
| "fdiv _ _ = NonFinite"

fun fsqrt :: "fval \<Rightarrow> fval" where
  "fsqrt (Fin x) = (if x < 0 then NonFinite else Fin (sqrt x))"
| "fsqrt NonFinite = NonFinite"

section \<open>Vectors, matrices and isometries (Eigen)\<close>

type_synonym vec3 = "real \<times> real \<times> real"

text \<open>A 3x3 matrix is the triple of its rows.\<close>

type_synonym mat3 = "vec3 \<times> vec3 \<times> vec3"

definition vadd :: "vec3 \<Rightarrow> vec3 \<Rightarrow> vec3" where
  "vadd u v = (case u of (a, b, c) \<Rightarrow> case v of (x, y, z) \<Rightarrow> (a + x, b + y, c + z))"

definition vneg :: "vec3 \<Rightarrow> vec3" where
  "vneg v = (case v of (x, y, z) \<Rightarrow> (- x, - y, - z))"

definition dot :: "vec3 \<Rightarrow> vec3 \<Rightarrow> real" where
  "dot u v = (case u of (a, b, c) \<Rightarrow> case v of (x, y, z) \<Rightarrow> a * x + b * y + c * z)"

definition vnorm :: "vec3 \<Rightarrow> real" where
  "vnorm v = sqrt (dot v v)"

definition mat_identity :: mat3 where
  "mat_identity = ((1, 0, 0), (0, 1, 0), (0, 0, 1))"

definition mat_vec :: "mat3 \<Rightarrow> vec3 \<Rightarrow> vec3" where
  "mat_vec m v = (case m of (r1, r2, r3) \<Rightarrow> (dot r1 v, dot r2 v, dot r3 v))"

definition mat_transpose :: "mat3 \<Rightarrow> mat3" where
  "mat_transpose m =
     (case m of ((a, b, c), (d, e, f), (g, h, i)) \<Rightarrow> ((a, d, g), (b, e, h), (c, f, i)))"

definition mat_mul :: "mat3 \<Rightarrow> mat3 \<Rightarrow> mat3" where
  "mat_mul m n =
     (case m of (r1, r2, r3) \<Rightarrow> case mat_transpose n of (c1, c2, c3) \<Rightarrow>
        ((dot r1 c1, dot r1 c2, dot r1 c3),
         (dot r2 c1, dot r2 c2, dot r2 c3),
         (dot r3 c1, dot r3 c2, dot r3 c3)))"

text \<open>\<open>Eigen::Isometry3d\<close>: a linear part and a translation.\<close>

record isometry =
  iso_linear :: mat3
  iso_translation :: vec3

definition Identity :: isometry where
  "Identity = \<lparr>iso_linear = mat_identity, iso_translation = (0, 0, 0)\<rparr>"

text \<open>\<open>a * b\<close>\<close>

definition iso_mul :: "isometry \<Rightarrow> isometry \<Rightarrow> isometry" where
  "iso_mul a b =
     \<lparr>iso_linear = mat_mul (iso_linear a) (iso_linear b),
      iso_translation = vadd (mat_vec (iso_linear a) (iso_translation b)) (iso_translation a)\<rparr>"

text \<open>
  \<open>a.inverse()\<close> of a transform in \<open>Isometry\<close> mode: Eigen transposes the linear part
  (it does not invert it) and sets the translation to minus the new linear part times the
  old translation.
\<close>

definition iso_inverse :: "isometry \<Rightarrow> isometry" where
  "iso_inverse a =
     \<lparr>iso_linear = mat_transpose (iso_linear a),
      iso_translation = vneg (mat_vec (mat_transpose (iso_linear a)) (iso_translation a))\<rparr>"

text \<open>\<open>a.translate(v)\<close>: the translation by \<open>v\<close> is applied on the right.\<close>

definition translate :: "isometry \<Rightarrow> vec3 \<Rightarrow> isometry" where
  "translate a v = a\<lparr>iso_translation := vadd (iso_translation a) (mat_vec (iso_linear a) v)\<rparr>"

text \<open>\<open>a.rotate(r)\<close>: the linear part is multiplied on the right by the matrix of \<open>r\<close>.\<close>

definition rotate :: "isometry \<Rightarrow> mat3 \<Rightarrow> isometry" where
  "rotate a r = a\<lparr>iso_linear := mat_mul (iso_linear a) r\<rparr>"

text \<open>
  \<open>Eigen::Quaterniond(w, x, y, z).toRotationMatrix()\<close>, which is what \<open>rotate\<close> makes of
  a quaternion. The coefficients are used as they are: nothing is normalised.
\<close>

definition quaternion_matrix :: "real \<Rightarrow> real \<Rightarrow> real \<Rightarrow> real \<Rightarrow> mat3" where
  "quaternion_matrix w x y z =
     (let tx = 2 * x; ty = 2 * y; tz = 2 * z;
          twx = tx * w; twy = ty * w; twz = tz * w;
          txx = tx * x; txy = ty * x; txz = tz * x;
          tyy = ty * y; tyz = tz * y; tzz = tz * z
      in ((1 - (tyy + tzz), txy - twz, txz + twy),
          (txy + twz, 1 - (txx + tzz), tyz - twx),
          (txz - twy, tyz + twx, 1 - (txx + tyy))))"

text \<open>\<open>Eigen::AngleAxisd(angle, axis).toRotationMatrix()\<close>\<close>

definition angle_axis_matrix :: "real \<Rightarrow> vec3 \<Rightarrow> mat3" where
  "angle_axis_matrix angle axis =
     (case axis of (ax, ay, az) \<Rightarrow>
        let s = sin angle; c = cos angle;
            sx = s * ax; sy = s * ay; sz = s * az;
            cx = (1 - c) * ax; cy = (1 - c) * ay; cz = (1 - c) * az
        in ((cx * ax + c, cx * ay - sz, cx * az + sy),
            (cx * ay + sz, cy * ay + c, cy * az - sx),
            (cx * az - sy, cy * az + sx, cz * az + c)))"

definition UnitX :: vec3 where "UnitX = (1, 0, 0)"
definition UnitZ :: vec3 where "UnitZ = (0, 0, 1)"

definition orthogonal_matrix :: "mat3 \<Rightarrow> bool" where
  "orthogonal_matrix m = (mat_mul m (mat_transpose m) = mat_identity)"

section \<open>Validation statistics\<close>

record Stats =
  pos_mean :: fval
  pos_stdev :: fval
  rot_mean :: fval
  rot_stdev :: fval

text \<open>
  \<open>Stats::percentDiff\<close> prints four lines. The model returns them in order, each as its
  label and the number printed before the percent sign.
\<close>

definition percentDiff :: "Stats \<Rightarrow> Stats \<Rightarrow> (string \<times> fval) list" where
  "percentDiff this other =
     [(''Position: '',
         fdiv (fmul (Fin 100) (fsub (pos_mean this) (pos_mean other))) (pos_mean this)),
      (''Position Std. Dev.: '',
         fdiv (fmul (Fin 100) (fsub (pos_stdev this) (pos_stdev other))) (pos_stdev this)),
      (''Orientation: '',
         fdiv (fmul (Fin 100) (fsub (rot_mean this) (rot_mean other))) (rot_mean this)),
      (''Orientation Std. Dev.: '',
         fdiv (fmul (Fin 100) (fsub (rot_stdev this) (rot_stdev other))) (rot_stdev this))]"

text \<open>
  The difference of two statistics as a percentage of the first, in the words of the
  specification: defined when both are numbers and the first is not zero.
\<close>

fun percent_of_receiver :: "fval \<Rightarrow> fval \<Rightarrow> fval" where
  "percent_of_receiver (Fin a) (Fin b) = (if a = 0 then NonFinite else Fin (100 * (a - b) / a))"
| "percent_of_receiver _ _ = NonFinite"

section \<open>Measurement files (yaml-cpp)\<close>

text \<open>
  The content of a YAML document. A scalar is its text; a map is the list of its entries
  in file order, each a key text and a value.
\<close>

datatype yaml = YNull | YScalar string | YSeq "yaml list" | YMap "(string \<times> yaml) list"

text \<open>
  A \<open>YAML::Node\<close> handle refers to a piece of the document, or to nothing when it was
  obtained by asking a node for a key it does not have (an undefined node): \<open>None\<close>.
\<close>

type_synonym node = "yaml option"

datatype yaml_exception = BadFile | ParserException | BadConversion | BadSubscript | InvalidNode

text \<open>
  The library's conversions of a scalar's text: \<open>as_double s\<close> is the number that
  \<open>as<double>()\<close> reads from the text \<open>s\<close>, \<open>None\<close> when the text is not a number;
  \<open>as_index s\<close> is the index a key's text stands for, when a map is asked for an integer key.
\<close>

record conversions =
  as_double :: "string \<Rightarrow> real option"
  as_index :: "string \<Rightarrow> nat option"

text \<open>
  \<open>n[key]\<close> on a non-constant node with a text key. A map gives its first entry with that
  key. A missing key is no failure: the result is an undefined node, also when \<open>n\<close> is
  itself undefined, null or a sequence. Only a scalar cannot be subscripted.
  (A sequence would answer a key that is the text of one of its indices; none of the keys
  the program asks for is such a text.)
\<close>

fun node_key :: "node \<Rightarrow> string \<Rightarrow> yaml_exception + node" where
  "node_key (Some (YMap kvs)) key = Inr (map_of kvs key)"
| "node_key (Some (YScalar s)) key = Inl BadSubscript"
| "node_key _ key = Inr None"

text \<open>\<open>n.size()\<close>: the number of entries of a sequence or a map, 0 for everything else.\<close>

fun node_size :: "node \<Rightarrow> nat" where
  "node_size (Some (YSeq xs)) = length xs"
| "node_size (Some (YMap kvs)) = length kvs"
| "node_size _ = 0"

text \<open>\<open>n[i]\<close> on a non-constant node with an integer key.\<close>

fun node_index :: "conversions \<Rightarrow> node \<Rightarrow> nat \<Rightarrow> yaml_exception + node" where
  "node_index cv (Some (YSeq xs)) i = Inr (if i < length xs then Some (xs ! i) else None)"
| "node_index cv (Some (YMap kvs)) i =
     Inr (map_option snd (find (\<lambda>kv. as_index cv (fst kv) = Some i) kvs))"
| "node_index cv (Some (YScalar s)) i = Inl BadSubscript"
| "node_index cv _ i = Inr None"

text \<open>\<open>n.as<double>()\<close>: only a scalar whose text is a number converts.\<close>

fun node_as_double :: "conversions \<Rightarrow> node \<Rightarrow> yaml_exception + real" where
  "node_as_double cv (Some (YScalar s)) =
     (case as_double cv s of None \<Rightarrow> Inl BadConversion | Some r \<Rightarrow> Inr r)"
| "node_as_double cv _ = Inl BadConversion"

section \<open>Measurements\<close>

record KinematicMeasurement =
  camera_to_target :: isometry
  camera_chain_joints :: "real list"
  target_chain_joints :: "real list"

datatype error =
    BadFileException yaml_exception
  | DimensionMismatch
  | ConfigurationError
  | CovarianceError

text \<open>
  Either loop \<open>for (i = 0; i < joints.size(); ++i) v[i] = joints[i].as<double>()\<close>,
  over the indices still to do. The first failing conversion ends it.
\<close>

fun read_joints_from :: "conversions \<Rightarrow> node \<Rightarrow> nat list \<Rightarrow> yaml_exception + real list" where
  "read_joints_from cv joints [] = Inr []"
| "read_joints_from cv joints (i # rest) =
     (case node_index cv joints i of
        Inl e \<Rightarrow> Inl e
      | Inr entry \<Rightarrow>
          (case node_as_double cv entry of
             Inl e \<Rightarrow> Inl e
           | Inr v \<Rightarrow>
               (case read_joints_from cv joints rest of
                  Inl e \<Rightarrow> Inl e
                | Inr vs \<Rightarrow> Inr (v # vs))))"

definition read_joints :: "conversions \<Rightarrow> node \<Rightarrow> yaml_exception + real list" where
  "read_joints cv joints = read_joints_from cv joints [0..<node_size joints]"

text \<open>\<open>pose[key].as<double>()\<close>\<close>

definition pose_field :: "conversions \<Rightarrow> node \<Rightarrow> string \<Rightarrow> yaml_exception + real" where
  "pose_field cv pose key =
     (case node_key pose key of Inl e \<Rightarrow> Inl e | Inr f \<Rightarrow> node_as_double cv f)"

text \<open>The seven pose fields, read in the order of the source.\<close>

fun pose_fields :: "conversions \<Rightarrow> node \<Rightarrow> string list \<Rightarrow> yaml_exception + real list" where
  "pose_fields cv pose [] = Inr []"
| "pose_fields cv pose (key # keys) =
     (case pose_field cv pose key of
        Inl e \<Rightarrow> Inl e
      | Inr v \<Rightarrow>
          (case pose_fields cv pose keys of Inl e \<Rightarrow> Inl e | Inr vs \<Rightarrow> Inr (v # vs)))"

definition pose_keys :: "string list" where
  "pose_keys = [''x'', ''y'', ''z'', ''qw'', ''qx'', ''qy'', ''qz'']"

text \<open>
  The body of the loop over the records: one measurement from \<open>it->second\<close>. (Seven
  keys give seven values, so the last case is never taken.)
\<close>

definition load_record :: "conversions \<Rightarrow> node \<Rightarrow> yaml_exception + KinematicMeasurement" where
  "load_record cv r =
     (case node_key r ''target_joints'' of
        Inl e \<Rightarrow> Inl e
      | Inr tjoints \<Rightarrow>
     (case read_joints cv tjoints of
        Inl e \<Rightarrow> Inl e
      | Inr tj \<Rightarrow>
     (case node_key r ''camera_joints'' of
        Inl e \<Rightarrow> Inl e
      | Inr cjoints \<Rightarrow>
     (case read_joints cv cjoints of
        Inl e \<Rightarrow> Inl e
      | Inr cj \<Rightarrow>
     (case node_key r ''pose'' of
        Inl e \<Rightarrow> Inl e
      | Inr pose \<Rightarrow>
     (case pose_fields cv pose pose_keys of
        Inl e \<Rightarrow> Inl e
      | Inr [x, y, z, qw, qx, qy, qz] \<Rightarrow>
          Inr \<lparr>camera_to_target =
                 rotate (translate Identity (x, y, z)) (quaternion_matrix qw qx qy qz),
               camera_chain_joints = cj,
               target_chain_joints = tj\<rparr>
      | Inr _ \<Rightarrow> Inl BadConversion))))))"

fun load_records :: "conversions \<Rightarrow> node list \<Rightarrow> yaml_exception + KinematicMeasurement list" where
  "load_records cv [] = Inr []"
| "load_records cv (r # rs) =
     (case load_record cv r of
        Inl e \<Rightarrow> Inl e
      | Inr m \<Rightarrow>
          (case load_records cv rs of Inl e \<Rightarrow> Inl e | Inr ms \<Rightarrow> Inr (m # ms)))"

text \<open>
  The loop \<open>for (it = n.begin(); it != n.end(); ++it)\<close> over the root node. Over a map,
  \<open>it->second\<close> is the value of each entry in turn. Over a sequence, \<open>it->second\<close> is
  an invalid node and the first subscript of the loop body throws. Any other root has no
  entries, so the loop does nothing.
\<close>

fun load_document :: "conversions \<Rightarrow> yaml \<Rightarrow> yaml_exception + KinematicMeasurement list" where
  "load_document cv (YMap recs) = load_records cv (map (\<lambda>kv. Some (snd kv)) recs)"
| "load_document cv (YSeq xs) = (if xs = [] then Inr [] else Inl InvalidNode)"
| "load_document cv _ = Inr []"

text \<open>
  \<open>loadMeasurements\<close>. The argument is what \<open>YAML::LoadFile(filename)\<close> gives: the
  document, or the exception it throws. Every \<open>YAML::Exception\<close> of the body is caught
  and thrown again as a \<open>BadFileException\<close>.
\<close>

definition loadMeasurements ::
  "conversions \<Rightarrow> yaml_exception + yaml \<Rightarrow> error + KinematicMeasurement list" where
  "loadMeasurements cv file =
     (case (case file of Inl e \<Rightarrow> Inl e | Inr n \<Rightarrow> load_document cv n) of
        Inl e \<Rightarrow> Inl (BadFileException e)
      | Inr measurements \<Rightarrow> Inr measurements)"

text \<open>
  What a well-formed record says, read off the document without the node interface:
  the numbers of a sequence of numeric scalars, and the content of a record that is a map
  with two such sequences under \<open>target_joints\<close> and \<open>camera_joints\<close> and, under
  \<open>pose\<close>, a map with a numeric scalar for each of the seven pose keys.
\<close>

definition number_of :: "conversions \<Rightarrow> yaml option \<Rightarrow> real option" where
  "number_of cv v = (case v of Some (YScalar s) \<Rightarrow> as_double cv s | _ \<Rightarrow> None)"

fun numbers_of :: "conversions \<Rightarrow> yaml list \<Rightarrow> real list option" where
  "numbers_of cv [] = Some []"
| "numbers_of cv (v # vs) =
     (case number_of cv (Some v) of
        None \<Rightarrow> None
      | Some x \<Rightarrow> (case numbers_of cv vs of None \<Rightarrow> None | Some xs \<Rightarrow> Some (x # xs)))"

definition joint_entries :: "yaml \<Rightarrow> string \<Rightarrow> yaml list option" where
  "joint_entries r key =
     (case r of
        YMap kvs \<Rightarrow> (case map_of kvs key of Some (YSeq xs) \<Rightarrow> Some xs | _ \<Rightarrow> None)
      | _ \<Rightarrow> None)"

definition pose_entries :: "yaml \<Rightarrow> yaml list option" where
  "pose_entries r =
     (case r of
        YMap kvs \<Rightarrow>
          (case map_of kvs ''pose'' of
             Some (YMap pf) \<Rightarrow> those (map (map_of pf) pose_keys)
           | _ \<Rightarrow> None)
      | _ \<Rightarrow> None)"

definition record_content ::
  "conversions \<Rightarrow> yaml \<Rightarrow> (real list \<times> real list \<times> real list) option" where
  "record_content cv r =
     (case joint_entries r ''target_joints'' of None \<Rightarrow> None | Some txs \<Rightarrow>
     (case numbers_of cv txs of None \<Rightarrow> None | Some tj \<Rightarrow>
     (case joint_entries r ''camera_joints'' of None \<Rightarrow> None | Some cxs \<Rightarrow>
     (case numbers_of cv cxs of None \<Rightarrow> None | Some cj \<Rightarrow>
     (case pose_entries r of None \<Rightarrow> None | Some pxs \<Rightarrow>
     (case numbers_of cv pxs of None \<Rightarrow> None | Some p \<Rightarrow> Some (tj, cj, p)))))))"

text \<open>
  The rotation that a quaternion (w, x, y, z) of unit norm stands for, as a matrix in
  its textbook form.
\<close>

definition rotation_of_quaternion :: "real \<Rightarrow> real \<Rightarrow> real \<Rightarrow> real \<Rightarrow> mat3" where
  "rotation_of_quaternion w x y z =
     ((1 - 2 * (y\<^sup>2 + z\<^sup>2), 2 * (x * y - z * w), 2 * (x * z + y * w)),
      (2 * (x * y + z * w), 1 - 2 * (x\<^sup>2 + z\<^sup>2), 2 * (y * z - x * w)),
      (2 * (x * z - y * w), 2 * (y * z + x * w), 1 - 2 * (x\<^sup>2 + y\<^sup>2)))"

definition well_formed_file :: "conversions \<Rightarrow> (string \<times> yaml) list \<Rightarrow> bool" where
  "well_formed_file cv recs = list_all (\<lambda>kv. record_content cv (snd kv) \<noteq> None) recs"

text \<open>
  The ways in which a record can be malformed that make \<open>loadMeasurements\<close> fail: the
  record is not a map; it has no \<open>pose\<close> or its pose is not a map; its pose lacks one of
  the seven pose keys or has something other than a number there; or one of its two joint
  sequences has an entry that is not a number.
\<close>

definition bad_sequence :: "conversions \<Rightarrow> yaml \<Rightarrow> string \<Rightarrow> bool" where
  "bad_sequence cv r key =
     (case joint_entries r key of
        None \<Rightarrow> False
      | Some xs \<Rightarrow> list_ex (\<lambda>v. number_of cv (Some v) = None) xs)"

definition bad_pose :: "conversions \<Rightarrow> yaml \<Rightarrow> bool" where
  "bad_pose cv r =
     (case r of
        YMap kvs \<Rightarrow>
          (case map_of kvs ''pose'' of
             None \<Rightarrow> True
           | Some (YMap pf) \<Rightarrow> list_ex (\<lambda>k. number_of cv (map_of pf k) = None) pose_keys
           | Some _ \<Rightarrow> True)
      | _ \<Rightarrow> True)"

definition malformed_record :: "conversions \<Rightarrow> yaml \<Rightarrow> bool" where
  "malformed_record cv r =
     (bad_pose cv r \<or> bad_sequence cv r ''target_joints'' \<or> bad_sequence cv r ''camera_joints'')"

text \<open>
  Conversions for the examples: the text of a single decimal digit is that number and
  that index, and no other text is a number.
\<close>

definition digit_of :: "string \<Rightarrow> nat option" where
  "digit_of s =
     (case s of
        [c] \<Rightarrow> (let n = (of_char c :: nat) in if 48 \<le> n \<and> n \<le> 57 then Some (n - 48) else None)
      | _ \<Rightarrow> None)"

definition digit_conversions :: conversions where
  "digit_conversions = \<lparr>as_double = (\<lambda>s. map_option real (digit_of s)), as_index = digit_of\<rparr>"

text \<open>
  Documents for the examples: a record with the given texts as its joint entries and pose
  values, and the same record without its \<open>target_joints\<close> entry.
\<close>

definition pose_node :: "string list \<Rightarrow> yaml" where
  "pose_node texts = YMap (zip pose_keys (map YScalar texts))"

definition record_node :: "string list \<Rightarrow> string list \<Rightarrow> string list \<Rightarrow> yaml" where
  "record_node tj cj pose =
     YMap [(''target_joints'', YSeq (map YScalar tj)),
           (''camera_joints'', YSeq (map YScalar cj)),
           (''pose'', pose_node pose)]"

definition record_without_target_joints :: "string list \<Rightarrow> string list \<Rightarrow> yaml" where
  "record_without_target_joints cj pose =
     YMap [(''camera_joints'', YSeq (map YScalar cj)), (''pose'', pose_node pose)]"

section \<open>Kinematic chains\<close>

datatype DHJointType = REVOLUTE | PRISMATIC

text \<open>
  A segment as \<open>createTwoAxisPositioner\<close> builds it: four parameters (a length, an
  angle, a length, an angle), the joint type, a name and the joint limits (\<open>max\<close> and
  \<open>min\<close> in the source).
\<close>

record DHTransform =
  params :: "real \<times> real \<times> real \<times> real"
  joint_type :: DHJointType
  joint_name :: string
  max_limit :: real
  min_limit :: real

record DHChain =
  transforms :: "DHTransform list"
  base_offset :: isometry

definition dof :: "DHChain \<Rightarrow> nat" where
  "dof chain = length (transforms chain)"

text \<open>
  Modelled from the spec: the transform of one segment at a joint value (the class
  \<open>DHTransform\<close> is declared in a header that is not among the sources). It is the
  canonical transform of the four parameters, translation along and rotation about Z, then
  translation along and rotation about X, where the joint value takes the place of the
  angle for a revolute joint and of the length for a prismatic one. The limits are not read.
\<close>

definition createRelativeTransform :: "DHTransform \<Rightarrow> real \<Rightarrow> isometry" where
  "createRelativeTransform t joint =
     (case params t of (d, theta, r, alpha) \<Rightarrow>
        let d' = (case joint_type t of PRISMATIC \<Rightarrow> joint | REVOLUTE \<Rightarrow> d);
            theta' = (case joint_type t of REVOLUTE \<Rightarrow> joint | PRISMATIC \<Rightarrow> theta)
        in rotate (translate (rotate (translate Identity (0, 0, d'))
                                     (angle_axis_matrix theta' UnitZ))
                             (r, 0, 0))
                  (angle_axis_matrix alpha UnitX))"

text \<open>
  Modelled from the spec: forward kinematics, \<open>DHChain::getFK\<close> (not among the sources).
  The base offset is composed with the transform of each segment in order. A chain with no
  segment gives its base offset whatever the joint vector. For a chain with segments the
  spec speaks of joint vectors of the chain's length only; the model fails on any other.
\<close>

definition compose_segments :: "DHChain \<Rightarrow> real list \<Rightarrow> isometry" where
  "compose_segments chain joint_values =
     foldl (\<lambda>T tj. iso_mul T (createRelativeTransform (fst tj) (snd tj)))
           (base_offset chain) (zip (transforms chain) joint_values)"

definition getFK :: "DHChain \<Rightarrow> real list \<Rightarrow> error + isometry" where
  "getFK chain joint_values =
     (if transforms chain = [] then Inr (base_offset chain)
      else if length joint_values \<noteq> dof chain then Inl DimensionMismatch
      else Inr (compose_segments chain joint_values))"

definition add_offset :: "DHTransform \<Rightarrow> real \<times> real \<times> real \<times> real \<Rightarrow> DHTransform" where
  "add_offset t row =
     (case params t of (d, theta, r, alpha) \<Rightarrow> case row of (od, otheta, orr, oalpha) \<Rightarrow>
        t\<lparr>params := (d + od, theta + otheta, r + orr, alpha + oalpha)\<rparr>)"

text \<open>
  Modelled from the spec: the constructor \<open>DHChain(chain, offsets)\<close> (not among the
  sources). Each segment's parameters are the nominal ones plus the row of the offset
  matrix for that segment; the base offset is kept. The number of rows must be the chain's
  number of segments.
\<close>

definition DHChain_with_offsets ::
  "DHChain \<Rightarrow> (real \<times> real \<times> real \<times> real) list \<Rightarrow> error + DHChain" where
  "DHChain_with_offsets chain offsets =
     (if length offsets \<noteq> dof chain then Inl DimensionMismatch
      else Inr (chain\<lparr>transforms := map2 add_offset (transforms chain) offsets\<rparr>))"

text \<open>\<open>createTwoAxisPositioner\<close>\<close>

definition createTwoAxisPositioner :: DHChain where
  "createTwoAxisPositioner =
     (let p1 = (0, 0, 0, - pi / 2);
          p2 = (- 0.475, - pi / 2, 0, 0);
          t = \<lparr>params = p1, joint_type = REVOLUTE, joint_name = ''j1'',
               max_limit = pi, min_limit = - pi\<rparr>;
          dh_transform = \<lparr>params = p2, joint_type = REVOLUTE, joint_name = ''j2'',
                          max_limit = 2 * pi, min_limit = - 2 * pi\<rparr>;
          base_offset = rotate (translate Identity (2.2, 0, 1.6))
                               (angle_axis_matrix (pi / 2) UnitX)
      in \<lparr>transforms = [t, dh_transform], base_offset = base_offset\<rparr>)"

text \<open>The same chain with other joint limits on every segment.\<close>

definition with_limits :: "real \<Rightarrow> real \<Rightarrow> DHChain \<Rightarrow> DHChain" where
  "with_limits lo hi chain =
     chain\<lparr>transforms := map (\<lambda>t. t\<lparr>max_limit := hi, min_limit := lo\<rparr>) (transforms chain)\<rparr>"

section \<open>Calibration results and their validation\<close>

record 'cov KinematicCalibrationResult =
  converged :: bool
  initial_cost_per_obs :: fval
  final_cost_per_obs :: fval
  camera_mount_to_camera :: isometry
  target_mount_to_target :: isometry
  camera_base_to_target_base :: isometry
  camera_chain_dh_offsets :: "(real \<times> real \<times> real \<times> real) list"
  target_chain_dh_offsets :: "(real \<times> real \<times> real \<times> real) list"
  covariance :: 'cov

text \<open>
  The first three lines of \<open>printResults\<close>: whether the calibration converged, and the
  square roots of the two costs.
\<close>

datatype printed = Line string | Number string fval

definition printResults :: "'cov KinematicCalibrationResult \<Rightarrow> printed list" where
  "printResults result =
     [Line (''Calibration '' @ (if converged result then ''did'' else ''did not'') @ '' converge''),
      Number ''Initial cost per observation: '' (fsqrt (initial_cost_per_obs result)),
      Number ''Final cost per observation: '' (fsqrt (final_cost_per_obs result))]"

text \<open>
  A \<open>boost::accumulators\<close> set with the statistics \<open>tag::mean\<close> and \<open>tag::variance\<close>.
  It keeps the count of the samples, their sum, and a running variance that starts at 0.
  \<open>tag::mean\<close> is the lazy mean: the sum over the count, computed when it is asked for.
  \<open>tag::variance\<close> is the iterative variance: with each sample after the first, once
  count and sum are updated, the running variance \<open>v\<close> becomes
  \<open>v * (n - 1) / n + (x - mean)\<^sup>2 / (n - 1)\<close>, where \<open>n\<close> is the new count and \<open>mean\<close>
  the mean that includes the sample. So an empty set has no mean but has the variance 0.
\<close>

record accumulator_set =
  acc_count :: nat
  acc_sum :: real
  acc_running_variance :: real

definition acc_empty :: accumulator_set where
  "acc_empty = \<lparr>acc_count = 0, acc_sum = 0, acc_running_variance = 0\<rparr>"

definition acc_push :: "accumulator_set \<Rightarrow> real \<Rightarrow> accumulator_set" where
  "acc_push acc x =
     (let cnt = acc_count acc + 1;
          total = acc_sum acc + x;
          mean = total / real cnt
      in \<lparr>acc_count = cnt, acc_sum = total,
          acc_running_variance =
            (if cnt > 1
             then acc_running_variance acc * real (cnt - 1) / real cnt
                  + (x - mean) * (x - mean) / real (cnt - 1)
             else acc_running_variance acc)\<rparr>)"

definition acc_mean :: "accumulator_set \<Rightarrow> fval" where
  "acc_mean acc = fdiv (Fin (acc_sum acc)) (Fin (real (acc_count acc)))"

definition acc_variance :: "accumulator_set \<Rightarrow> fval" where
  "acc_variance acc = Fin (acc_running_variance acc)"

text \<open>
  The camera-to-target transform that the calibrated model predicts for a measurement's
  joint states, from the two forward kinematics.
\<close>

definition predicted_camera_to_target ::
  "'cov KinematicCalibrationResult \<Rightarrow> isometry \<Rightarrow> isometry \<Rightarrow> isometry" where
  "predicted_camera_to_target result camera_chain_fk target_chain_fk =
     (let camera_base_to_camera = iso_mul camera_chain_fk (camera_mount_to_camera result);
          camera_base_to_target =
            iso_mul (iso_mul (camera_base_to_target_base result) target_chain_fk)
                    (target_mount_to_target result)
      in iso_mul (iso_inverse camera_base_to_camera) camera_base_to_target)"

text \<open>
  The loop of \<open>compareToMeasurements\<close> over the measurements, with the two accumulators.
  \<open>angularDistance a b\<close> stands for Eigen's
  \<open>Quaterniond(a).angularDistance(Quaterniond(b))\<close> of two linear parts.
\<close>

fun compare_loop ::
  "(mat3 \<Rightarrow> mat3 \<Rightarrow> real) \<Rightarrow> DHChain \<Rightarrow> DHChain \<Rightarrow> 'cov KinematicCalibrationResult \<Rightarrow>
   accumulator_set \<times> accumulator_set \<Rightarrow> KinematicMeasurement list \<Rightarrow>
   error + accumulator_set \<times> accumulator_set" where
  "compare_loop angularDistance camera_chain target_chain result accs [] = Inr accs"
| "compare_loop angularDistance camera_chain target_chain result accs (m # rest) =
     (case getFK camera_chain (camera_chain_joints m) of
        Inl e \<Rightarrow> Inl e
      | Inr camera_chain_fk \<Rightarrow>
     (case getFK target_chain (target_chain_joints m) of
        Inl e \<Rightarrow> Inl e
      | Inr target_chain_fk \<Rightarrow>
          let camera_to_target' =
                predicted_camera_to_target result camera_chain_fk target_chain_fk;
              diff = iso_mul (iso_inverse camera_to_target') (camera_to_target m);
              pos_acc = acc_push (fst accs) (vnorm (iso_translation diff));
              ori_acc = acc_push (snd accs)
                          (angularDistance (iso_linear camera_to_target')
                                           (iso_linear (camera_to_target m)))
          in compare_loop angularDistance camera_chain target_chain result
               (pos_acc, ori_acc) rest))"

definition compareToMeasurements ::
  "(mat3 \<Rightarrow> mat3 \<Rightarrow> real) \<Rightarrow> DHChain \<Rightarrow> DHChain \<Rightarrow> 'cov KinematicCalibrationResult \<Rightarrow>
   KinematicMeasurement list \<Rightarrow> error + Stats" where
  "compareToMeasurements angularDistance initial_camera_chain initial_target_chain result
     measurements =
     (case DHChain_with_offsets initial_camera_chain (camera_chain_dh_offsets result) of
        Inl e \<Rightarrow> Inl e
      | Inr camera_chain \<Rightarrow>
     (case DHChain_with_offsets initial_target_chain (target_chain_dh_offsets result) of
        Inl e \<Rightarrow> Inl e
      | Inr target_chain \<Rightarrow>
     (case compare_loop angularDistance camera_chain target_chain result
             (acc_empty, acc_empty) measurements of
        Inl e \<Rightarrow> Inl e
      | Inr accs \<Rightarrow>
          Inr \<lparr>pos_mean = acc_mean (fst accs),
               pos_stdev = fsqrt (acc_variance (fst accs)),
               rot_mean = acc_mean (snd accs),
               rot_stdev = fsqrt (acc_variance (snd accs))\<rparr>)))"

text \<open>
  Mean and standard deviation of a non-empty list of samples, as the specification names
  them: the sum over the number of samples, and the square root of the mean squared
  deviation from the mean.
\<close>

definition mean_of :: "real list \<Rightarrow> real" where
  "mean_of xs = sum_list xs / real (length xs)"

definition stdev_of :: "real list \<Rightarrow> real" where
  "stdev_of xs = sqrt (sum_list (map (\<lambda>x. (x - mean_of xs)\<^sup>2) xs) / real (length xs))"

text \<open>The parameters of a calibrated segment: the nominal ones plus a row of offsets.\<close>

definition plus_row ::
  "real \<times> real \<times> real \<times> real \<Rightarrow> real \<times> real \<times> real \<times> real \<Rightarrow> real \<times> real \<times> real \<times> real" where
  "plus_row p row =
     (fst p + fst row, fst (snd p) + fst (snd row),
      fst (snd (snd p)) + fst (snd (snd row)), snd (snd (snd p)) + snd (snd (snd row)))"

text \<open>
  The prediction in the words of the specification: the inverse of (forward kinematics of
  the camera chain at the camera joints, composed with camera-mount-to-camera), composed
  with (camera-base-to-target-base times forward kinematics of the target chain at the
  target joints times target-mount-to-target).
\<close>

definition spec_prediction ::
  "'cov KinematicCalibrationResult \<Rightarrow> DHChain \<Rightarrow> DHChain \<Rightarrow> KinematicMeasurement \<Rightarrow> isometry" where
  "spec_prediction result camera_chain target_chain m =
     iso_mul
       (iso_inverse (iso_mul (compose_segments camera_chain (camera_chain_joints m))
                             (camera_mount_to_camera result)))
       (iso_mul (iso_mul (camera_base_to_target_base result)
                         (compose_segments target_chain (target_chain_joints m)))
                (target_mount_to_target result))"

text \<open>
  The translation error of a prediction against a measured transform: the norm of the
  translation of the transform that takes the one to the other.
\<close>

definition translation_error :: "isometry \<Rightarrow> isometry \<Rightarrow> real" where
  "translation_error predicted measured =
     vnorm (iso_translation (iso_mul (iso_inverse predicted) measured))"

text \<open>
  For the examples: a chain of one prismatic segment whose parameters are all zero, and a
  measurement of a target seen at a given height with no rotation.
\<close>

definition slider :: DHChain where
  "slider = \<lparr>transforms = [\<lparr>params = (0, 0, 0, 0), joint_type = PRISMATIC,
                             joint_name = ''s'', max_limit = 1, min_limit = 0\<rparr>],
             base_offset = Identity\<rparr>"

definition fixed_chain :: DHChain where
  "fixed_chain = \<lparr>transforms = [], base_offset = Identity\<rparr>"

definition seen_at :: "real \<Rightarrow> real \<Rightarrow> KinematicMeasurement" where
  "seen_at joint height =
     \<lparr>camera_to_target = translate Identity (0, 0, height),
      camera_chain_joints = [], target_chain_joints = [joint]\<rparr>"

text \<open>
  For the examples: a result with a camera mount turned by half a turn about X and moved,
  a moved target mount, moved bases and an offset on the slider's link length; two
  measurements, the first with no rotation and the second turned like the camera mount;
  and a stand-in for the angular distance that tells its arguments apart.
\<close>

definition half_turn_x :: mat3 where
  "half_turn_x = ((1, 0, 0), (0, - 1, 0), (0, 0, - 1))"

definition offset_result :: "unit KinematicCalibrationResult" where
  "offset_result =
     \<lparr>converged = True, initial_cost_per_obs = Fin 0, final_cost_per_obs = Fin 0,
      camera_mount_to_camera = \<lparr>iso_linear = half_turn_x, iso_translation = (0, 1, 0)\<rparr>,
      target_mount_to_target = \<lparr>iso_linear = mat_identity, iso_translation = (0, 0, 1)\<rparr>,
      camera_base_to_target_base = \<lparr>iso_linear = mat_identity, iso_translation = (1, 0, 0)\<rparr>,
      camera_chain_dh_offsets = [], target_chain_dh_offsets = [(0, 0, 2, 0)],
      covariance = ()\<rparr>"

definition measured_straight :: KinematicMeasurement where
  "measured_straight =
     \<lparr>camera_to_target = \<lparr>iso_linear = mat_identity, iso_translation = (3, 1, - 2)\<rparr>,
      camera_chain_joints = [], target_chain_joints = [1]\<rparr>"

definition measured_turned :: KinematicMeasurement where
  "measured_turned =
     \<lparr>camera_to_target = \<lparr>iso_linear = half_turn_x, iso_translation = (3, 3, - 6)\<rparr>,
      camera_chain_joints = [], target_chain_joints = [5]\<rparr>"

definition coarse_distance :: "mat3 \<Rightarrow> mat3 \<Rightarrow> real" where
  "coarse_distance a b = (if b = mat_identity then 4 else if a = b then 0 else 7)"

definition identity_result :: "unit KinematicCalibrationResult" where
  "identity_result =
     \<lparr>converged = True, initial_cost_per_obs = Fin 0, final_cost_per_obs = Fin 0,
      camera_mount_to_camera = Identity, target_mount_to_target = Identity,
      camera_base_to_target_base = Identity,
      camera_chain_dh_offsets = [], target_chain_dh_offsets = [(0, 0, 0, 0)],
      covariance = ()\<rparr>"

section \<open>Observations\<close>

text \<open>
  The coordinates of an observation are compared by Eigen, where a NaN or an infinity
  decides the outcome. Here a \<open>double\<close> is a real number, an infinity or NaN, with IEEE
  arithmetic on them (rounding and the sign of zero are not modelled).
\<close>

datatype double = Finite real | PosInf | NegInf | NaN

fun dsub :: "double \<Rightarrow> double \<Rightarrow> double" where
  "dsub NaN b = NaN"
| "dsub a NaN = NaN"
| "dsub (Finite a) (Finite b) = Finite (a - b)"
| "dsub (Finite a) PosInf = NegInf"
| "dsub (Finite a) NegInf = PosInf"
| "dsub PosInf PosInf = NaN"
| "dsub PosInf b = PosInf"
| "dsub NegInf NegInf = NaN"
| "dsub NegInf b = NegInf"

fun dadd :: "double \<Rightarrow> double \<Rightarrow> double" where
  "dadd NaN b = NaN"
| "dadd a NaN = NaN"
| "dadd (Finite a) (Finite b) = Finite (a + b)"
| "dadd (Finite a) b = b"
| "dadd PosInf NegInf = NaN"
| "dadd PosInf b = PosInf"
| "dadd NegInf PosInf = NaN"
| "dadd NegInf b = NegInf"

text \<open>The sign of an infinity times a number or an infinity; zero times infinity is NaN.\<close>

fun signed_infinity :: "bool \<Rightarrow> double" where
  "signed_infinity positive = (if positive then PosInf else NegInf)"

fun dmul :: "double \<Rightarrow> double \<Rightarrow> double" where
  "dmul NaN b = NaN"
| "dmul a NaN = NaN"
| "dmul (Finite a) (Finite b) = Finite (a * b)"
| "dmul (Finite a) PosInf = (if a = 0 then NaN else signed_infinity (0 < a))"
| "dmul (Finite a) NegInf = (if a = 0 then NaN else signed_infinity (a < 0))"
| "dmul PosInf (Finite b) = (if b = 0 then NaN else signed_infinity (0 < b))"
| "dmul NegInf (Finite b) = (if b = 0 then NaN else signed_infinity (b < 0))"
| "dmul PosInf PosInf = PosInf"
| "dmul PosInf NegInf = NegInf"
| "dmul NegInf PosInf = NegInf"
| "dmul NegInf NegInf = PosInf"

text \<open>\<open>a < b\<close> and \<open>a <= b\<close>: false as soon as NaN is involved.\<close>

fun dless :: "double \<Rightarrow> double \<Rightarrow> bool" where
  "dless NaN b = False"
| "dless a NaN = False"
| "dless (Finite a) (Finite b) = (a < b)"
| "dless a PosInf = (a \<noteq> PosInf)"
| "dless NegInf b = (b \<noteq> NegInf)"
| "dless a b = False"

fun dle :: "double \<Rightarrow> double \<Rightarrow> bool" where
  "dle NaN b = False"
| "dle a NaN = False"
| "dle (Finite a) (Finite b) = (a \<le> b)"
| "dle a PosInf = True"
| "dle NegInf b = True"
| "dle a b = False"

text \<open>\<open>std::min(a, b)\<close>, which is \<open>b < a ? b : a\<close>.\<close>

definition dmin :: "double \<Rightarrow> double \<Rightarrow> double" where
  "dmin a b = (if dless b a then b else a)"

record Correspondence =
  in_image :: "double list"
  in_target :: "double list"

text \<open>
  The joint vectors of a \<open>KinematicObservation\<close> carry the prefix \<open>obs\<close> here, since
  their names are those of the fields of a \<open>KinematicMeasurement\<close>.
\<close>

record KinematicObservation =
  correspondence_set :: "Correspondence list"
  obs_camera_chain_joints :: "double list"
  obs_target_chain_joints :: "double list"

text \<open>\<open>v.cwiseAbs2().sum()\<close>\<close>

definition squaredNorm :: "double list \<Rightarrow> double" where
  "squaredNorm v = foldl dadd (Finite 0) (map (\<lambda>a. dmul a a) v)"

text \<open>
  Eigen's \<open>x.isApprox(y)\<close> with the default precision of \<open>double\<close>, \<open>1e-12\<close>: the
  squared norm of the difference is at most the squared precision times the smaller of
  the two squared norms. The difference of two vectors of different sizes is an assertion
  failure: \<open>None\<close>.
\<close>

definition isApprox :: "double list \<Rightarrow> double list \<Rightarrow> bool option" where
  "isApprox x y =
     (if length x \<noteq> length y then None
      else Some (dle (squaredNorm (map2 dsub x y))
                     (dmul (dmul (Finite (1 / 10 ^ 12)) (Finite (1 / 10 ^ 12)))
                           (dmin (squaredNorm x) (squaredNorm y)))))"

text \<open>Vectors and correspondence sets without NaN and without infinity.\<close>

fun is_finite :: "double \<Rightarrow> bool" where
  "is_finite (Finite a) = True"
| "is_finite a = False"

definition finite_correspondence :: "Correspondence \<Rightarrow> bool" where
  "finite_correspondence c = (list_all is_finite (in_image c) \<and> list_all is_finite (in_target c))"

text \<open>\<open>a && b\<close>: \<open>b\<close> is looked at only when \<open>a\<close> is true.\<close>

fun and_also :: "bool option \<Rightarrow> bool option \<Rightarrow> bool option" where
  "and_also (Some True) b = b"
| "and_also a b = a"

text \<open>\<open>Correspondence::operator==\<close>\<close>

definition Correspondence_eq :: "Correspondence \<Rightarrow> Correspondence \<Rightarrow> bool option" where
  "Correspondence_eq this rhs =
     and_also (isApprox (in_image this) (in_image rhs))
              (isApprox (in_target this) (in_target rhs))"

text \<open>
  \<open>operator==\<close> of two \<open>std::vector\<close>s: the sizes are equal and the elements are
  pairwise equal, compared in order up to the first difference.
\<close>

fun elements_eq :: "Correspondence list \<Rightarrow> Correspondence list \<Rightarrow> bool option" where
  "elements_eq [] [] = Some True"
| "elements_eq (a # as) (b # bs) = and_also (Correspondence_eq a b) (elements_eq as bs)"
| "elements_eq _ _ = Some False"

definition Set_eq :: "Correspondence list \<Rightarrow> Correspondence list \<Rightarrow> bool option" where
  "Set_eq xs ys = (if length xs \<noteq> length ys then Some False else elements_eq xs ys)"

text \<open>
  \<open>KinematicObservation::operator==\<close>. The last operand compares the correspondence set
  of \<open>this\<close> with itself, as the source does.
\<close>

definition KinematicObservation_eq ::
  "KinematicObservation \<Rightarrow> KinematicObservation \<Rightarrow> bool option" where
  "KinematicObservation_eq this rhs =
     and_also (isApprox (obs_camera_chain_joints this) (obs_camera_chain_joints rhs))
       (and_also (isApprox (obs_target_chain_joints this) (obs_target_chain_joints rhs))
          (Set_eq (correspondence_set this) (correspondence_set this)))"

section \<open>The calibration problem and its optimization\<close>

text \<open>
  \<open>KinematicCalibrationProblemPose6D\<close> with the fields that \<open>main\<close> sets. \<open>mask\<close> has
  one list of frozen component indices for each group of unknowns: group 1 is the target
  chain's offsets, groups 6 and 7 are the translation and the rotation of the transform
  from the camera base to the target base.
\<close>

record KinematicCalibrationProblemPose6D =
  camera_chain :: DHChain
  target_chain :: DHChain
  observations :: "KinematicMeasurement list"
  camera_mount_to_camera_guess :: isometry
  target_mount_to_target_guess :: isometry
  camera_base_to_target_base_guess :: isometry
  camera_chain_offset_stdev :: real
  target_chain_offset_stdev :: real
  mask :: "nat list list"

text \<open>
  Modelled from the spec: masking as a projection of a group's full parameter vector to
  its free components and back (the optimization code is not among the sources).
  \<open>project\<close> keeps the components whose index is not in the mask; \<open>embed\<close> writes new
  values of the free components back into the full vector.
\<close>

definition free_indices :: "nat \<Rightarrow> nat list \<Rightarrow> nat list" where
  "free_indices n frozen = filter (\<lambda>i. i \<notin> set frozen) [0..<n]"

definition project :: "nat list \<Rightarrow> real list \<Rightarrow> real list" where
  "project frozen full = map (\<lambda>i. full ! i) (free_indices (length full) frozen)"

definition embed :: "nat list \<Rightarrow> real list \<Rightarrow> real list \<Rightarrow> real list" where
  "embed frozen full free =
     fold (\<lambda>iv ys. ys[fst iv := snd iv]) (zip (free_indices (length full) frozen) free) full"

text \<open>
  Modelled from the spec: each group, given as its mask and its full vector, takes its new
  free values. A group for which the solver returns nothing stays as it is.
\<close>

fun embed_all :: "(nat list \<times> real list) list \<Rightarrow> real list list \<Rightarrow> real list list" where
  "embed_all [] frees = []"
| "embed_all (g # gs) [] = snd g # embed_all gs []"
| "embed_all (g # gs) (free # frees) = embed (fst g) (snd g) free # embed_all gs frees"

text \<open>
  What the numerical solver reports: whether it ended by convergence, and the sum of
  squared residuals before and after.
\<close>

record solver_summary =
  terminated_by_convergence :: bool
  initial_cost :: real
  final_cost :: real

text \<open>
  Modelled from the spec: one run of the solver over the free components of all groups.
  The solver is any function from the free vectors to a summary and new free vectors.
\<close>

definition optimize_unknowns ::
  "(real list list \<Rightarrow> solver_summary \<times> real list list) \<Rightarrow> (nat list \<times> real list) list \<Rightarrow>
   solver_summary \<times> real list list" where
  "optimize_unknowns solve groups =
     (case solve (map (\<lambda>g. project (fst g) (snd g)) groups) of
        (summary, frees) \<Rightarrow> (summary, embed_all groups frees))"

text \<open>
  What the model of \<open>optimize\<close> takes from outside: the solver (with its options and the
  weight of the priors), whether the Jacobian at given unknowns is rank-deficient, the
  covariance estimate at given unknowns, and the three-component rotation parameters of a
  linear part with their way back.
\<close>

record 'cov backend =
  solve :: "real list list \<Rightarrow> solver_summary \<times> real list list"
  jacobian_rank_deficient :: "real list list \<Rightarrow> bool"
  estimate_covariance :: "real list list \<Rightarrow> 'cov"
  rotation_vector :: "mat3 \<Rightarrow> real list"
  rotation_of_vector :: "real list \<Rightarrow> mat3"

text \<open>
  Modelled from the spec: the dimensions of a problem are consistent when every
  observation has one joint value for each segment of either chain, and the masks of the
  two chains' offsets name components that exist (four for each segment).
\<close>

definition dimensions_consistent :: "KinematicCalibrationProblemPose6D \<Rightarrow> bool" where
  "dimensions_consistent problem =
     (list_all (\<lambda>m. length (camera_chain_joints m) = dof (camera_chain problem)
                   \<and> length (target_chain_joints m) = dof (target_chain problem))
               (observations problem)
      \<and> length (mask problem) = 8
      \<and> list_all (\<lambda>i. i < 4 * dof (camera_chain problem)) (mask problem ! 0)
      \<and> list_all (\<lambda>i. i < 4 * dof (target_chain problem)) (mask problem ! 1))"

definition translation_vector :: "isometry \<Rightarrow> real list" where
  "translation_vector T = (case iso_translation T of (x, y, z) \<Rightarrow> [x, y, z])"

text \<open>
  Modelled from the spec: the unknowns before the optimization, in the order of the mask's
  groups: the offsets of the two chains, all zero, then translation and rotation of the
  three transforms; and the offset rows and the transform that a group's values stand for.
  The offsets of a chain form one vector, segment after segment, four components each.
\<close>

definition initial_unknowns ::
  "'cov backend \<Rightarrow> KinematicCalibrationProblemPose6D \<Rightarrow> real list list" where
  "initial_unknowns b problem =
     [replicate (4 * dof (camera_chain problem)) 0,
      replicate (4 * dof (target_chain problem)) 0,
      translation_vector (camera_mount_to_camera_guess problem),
      rotation_vector b (iso_linear (camera_mount_to_camera_guess problem)),
      translation_vector (target_mount_to_target_guess problem),
      rotation_vector b (iso_linear (target_mount_to_target_guess problem)),
      translation_vector (camera_base_to_target_base_guess problem),
      rotation_vector b (iso_linear (camera_base_to_target_base_guess problem))]"

fun offset_rows :: "real list \<Rightarrow> (real \<times> real \<times> real \<times> real) list" where
  "offset_rows (d # theta # r # alpha # rest) = (d, theta, r, alpha) # offset_rows rest"
| "offset_rows _ = []"

definition offsets_vector :: "(real \<times> real \<times> real \<times> real) list \<Rightarrow> real list" where
  "offsets_vector rows = concat (map (\<lambda>(d, theta, r, alpha). [d, theta, r, alpha]) rows)"

definition pose_of :: "'cov backend \<Rightarrow> real list \<Rightarrow> real list \<Rightarrow> isometry" where
  "pose_of b t r =
     \<lparr>iso_linear = rotation_of_vector b r,
      iso_translation = (case t of [x, y, z] \<Rightarrow> (x, y, z) | _ \<Rightarrow> (0, 0, 0))\<rparr>"

text \<open>
  Modelled from the spec: what the solver is given for a problem, the free components of
  every group; what it reports; and the unknowns after its run.
\<close>

definition solver_input ::
  "'cov backend \<Rightarrow> KinematicCalibrationProblemPose6D \<Rightarrow> real list list" where
  "solver_input b problem =
     map (\<lambda>g. project (fst g) (snd g)) (zip (mask problem) (initial_unknowns b problem))"

definition solver_report ::
  "'cov backend \<Rightarrow> KinematicCalibrationProblemPose6D \<Rightarrow> solver_summary" where
  "solver_report b problem = fst (solve b (solver_input b problem))"

definition final_unknowns ::
  "'cov backend \<Rightarrow> KinematicCalibrationProblemPose6D \<Rightarrow> real list list" where
  "final_unknowns b problem =
     snd (optimize_unknowns (solve b) (zip (mask problem) (initial_unknowns b problem)))"

text \<open>
  Modelled from the spec: \<open>optimize\<close> (declared in
  \<open>rct_optimizations/dh_chain_kinematic_calibration.h\<close>, which is not among the sources).
  Inconsistent dimensions are a configuration error, found before the solver runs.
  Otherwise the solver runs once on the free components. The specification has one more
  failure, the covariance error, \<open>if the Jacobian is rank-deficient at convergence\<close>, a
  kind of its own \<open>so callers can distinguish "converged but unidentifiable" from "did
  not converge"\<close>: it is raised for a run that converged and whose Jacobian at the final
  unknowns is rank-deficient. In every other case the result carries the solver's
  convergence flag, the two costs divided by the number of observations, the transforms
  and offsets of the final unknowns and the covariance estimate.
\<close>

definition optimize ::
  "'cov backend \<Rightarrow> KinematicCalibrationProblemPose6D \<Rightarrow> error + 'cov KinematicCalibrationResult"
  where
  "optimize b problem =
     (if \<not> dimensions_consistent problem then Inl ConfigurationError
      else
        (case optimize_unknowns (solve b) (zip (mask problem) (initial_unknowns b problem)) of
           (summary, [cam_dh, target_dh, cam_t, cam_r, target_t, target_r, base_t, base_r]) \<Rightarrow>
             (if terminated_by_convergence summary
                 \<and> jacobian_rank_deficient b
                     [cam_dh, target_dh, cam_t, cam_r, target_t, target_r, base_t, base_r]
              then Inl CovarianceError
              else
                Inr \<lparr>converged = terminated_by_convergence summary,
                     initial_cost_per_obs =
                       fdiv (Fin (initial_cost summary))
                            (Fin (real (length (observations problem)))),
                     final_cost_per_obs =
                       fdiv (Fin (final_cost summary))
                            (Fin (real (length (observations problem)))),
                     camera_mount_to_camera = pose_of b cam_t cam_r,
                     target_mount_to_target = pose_of b target_t target_r,
                     camera_base_to_target_base = pose_of b base_t base_r,
                     camera_chain_dh_offsets = offset_rows cam_dh,
                     target_chain_dh_offsets = offset_rows target_dh,
                     covariance =
                       estimate_covariance b
                         [cam_dh, target_dh, cam_t, cam_r, target_t, target_r, base_t, base_r]\<rparr>)
         | _ \<Rightarrow> Inl ConfigurationError))"

text \<open>
  What it is for the frozen components of a group to be unchanged: the vector after has
  the length of the vector before and the same value at every index of the mask. A group
  is fully frozen when the mask has each of its indices.
\<close>

definition frozen_agree :: "nat list \<Rightarrow> real list \<Rightarrow> real list \<Rightarrow> bool" where
  "frozen_agree frozen before after =
     (length after = length before
      \<and> list_all (\<lambda>i. i < length before \<longrightarrow> after ! i = before ! i) frozen)"

definition fully_frozen :: "nat list \<Rightarrow> nat \<Rightarrow> bool" where
  "fully_frozen frozen n = list_all (\<lambda>i. i \<in> set frozen) [0..<n]"

text \<open>
  Modelled from the spec: \<open>createDHMask\<close> (not among the sources) turns a grid of
  booleans, one row of four for each segment, into the indices of the frozen components
  of the chain's offset vector.
\<close>

definition createDHMask :: "bool list list \<Rightarrow> nat list" where
  "createDHMask grid =
     concat (map (\<lambda>(row, cells). map (\<lambda>col. 4 * row + col) (filter (\<lambda>col. cells ! col) [0, 1, 2, 3]))
                 (enumerate 0 grid))"

text \<open>
  The problem that \<open>main\<close> builds from the loaded measurements and the two mount guesses
  it is given: a camera chain without segments (its base offset, left to the constructor,
  is taken to be the identity), the two-axis positioner as target chain, the identity as
  guess between the bases, the last row of the target chain's offsets masked, and all
  components of the transform between the bases masked.
\<close>

definition main_problem ::
  "KinematicMeasurement list \<Rightarrow> isometry \<Rightarrow> isometry \<Rightarrow> KinematicCalibrationProblemPose6D" where
  "main_problem measurements camera_guess target_guess =
     (let target = createTwoAxisPositioner;
          grid = (replicate (dof target) (replicate 4 False))
                   [dof target - 1 := replicate 4 True]
      in \<lparr>camera_chain = \<lparr>transforms = [], base_offset = Identity\<rparr>,
          target_chain = target,
          observations = measurements,
          camera_mount_to_camera_guess = camera_guess,
          target_mount_to_target_guess = target_guess,
          camera_base_to_target_base_guess = Identity,
          camera_chain_offset_stdev = 0.001,
          target_chain_offset_stdev = 0.005,
          mask = [ [], createDHMask grid, [], [], [], [], [0, 1, 2], [0, 1, 2]]\<rparr>)"

text \<open>
  For the examples: a solver that does not converge and one that does, both moving every
  free component by 10; rotation parameters that are rational in the matrix (the vector
  part of the quaternion over its scalar part), with their way back; a backend whose
  Jacobian is always rank-deficient; a quarter turn about Z; two measurements for the
  two-axis positioner; and the problem of \<open>main\<close> for them, with a turned and moved
  guess between the bases in place of the identity, so that the frozen transform is not
  a trivial one.
\<close>

definition stalled_solver :: "real list list \<Rightarrow> solver_summary \<times> real list list" where
  "stalled_solver frees =
     (\<lparr>terminated_by_convergence = False, initial_cost = 8, final_cost = 2\<rparr>,
      map (map (\<lambda>x. x + 10)) frees)"

definition converging_solver :: "real list list \<Rightarrow> solver_summary \<times> real list list" where
  "converging_solver frees =
     (\<lparr>terminated_by_convergence = True, initial_cost = 8, final_cost = 2\<rparr>,
      map (map (\<lambda>x. x + 10)) frees)"

definition rational_vector :: "mat3 \<Rightarrow> real list" where
  "rational_vector m =
     (case m of ((m00, m01, m02), (m10, m11, m12), (m20, m21, m22)) \<Rightarrow>
        [(m21 - m12) / (1 + m00 + m11 + m22),
         (m02 - m20) / (1 + m00 + m11 + m22),
         (m10 - m01) / (1 + m00 + m11 + m22)])"

definition rational_rotation :: "real list \<Rightarrow> mat3" where
  "rational_rotation v =
     (case v of
        [a, b, c] \<Rightarrow>
          ((1 - 2 * (b * b + c * c) / (1 + a * a + b * b + c * c),
            2 * (a * b - c) / (1 + a * a + b * b + c * c),
            2 * (a * c + b) / (1 + a * a + b * b + c * c)),
           (2 * (a * b + c) / (1 + a * a + b * b + c * c),
            1 - 2 * (a * a + c * c) / (1 + a * a + b * b + c * c),
            2 * (b * c - a) / (1 + a * a + b * b + c * c)),
           (2 * (a * c - b) / (1 + a * a + b * b + c * c),
            2 * (b * c + a) / (1 + a * a + b * b + c * c),
            1 - 2 * (a * a + b * b) / (1 + a * a + b * b + c * c)))
      | _ \<Rightarrow> mat_identity)"

definition stalled_backend :: "unit backend" where
  "stalled_backend =
     \<lparr>solve = stalled_solver, jacobian_rank_deficient = (\<lambda>unknowns. True),
      estimate_covariance = (\<lambda>unknowns. ()),
      rotation_vector = rational_vector, rotation_of_vector = rational_rotation\<rparr>"

definition converging_backend :: "unit backend" where
  "converging_backend = stalled_backend\<lparr>solve := converging_solver\<rparr>"

definition quarter_turn_z :: mat3 where
  "quarter_turn_z = ((0, - 1, 0), (1, 0, 0), (0, 0, 1))"

definition example_measurements :: "KinematicMeasurement list" where
  "example_measurements =
     [\<lparr>camera_to_target = Identity, camera_chain_joints = [], target_chain_joints = [0, 1]\<rparr>,
      \<lparr>camera_to_target = translate Identity (0, 0, 1),
       camera_chain_joints = [], target_chain_joints = [1, 0]\<rparr>]"

definition example_problem :: KinematicCalibrationProblemPose6D where
  "example_problem =
     (main_problem example_measurements
        \<lparr>iso_linear = quarter_turn_z, iso_translation = (1, 2, 3)\<rparr>
        \<lparr>iso_linear = mat_identity, iso_translation = (0, 0, 1)\<rparr>)
     \<lparr>camera_base_to_target_base_guess :=
        \<lparr>iso_linear = quarter_turn_z, iso_translation = (4, 5, 6)\<rparr>\<rparr>"

section \<open>Properties\<close>

lemma percent_expression:
  "fdiv (fmul (Fin 100) (fsub a b)) a = percent_of_receiver a b"
  by (cases a; cases b) simp_all

text \<open>
  C6. For any two Stats \<open>a\<close> and \<open>b\<close>, \<open>a.percentDiff(b)\<close> reports four values, in the
  order position mean, position standard deviation, orientation mean, orientation
  standard deviation; each is 100 times (a's statistic minus b's) divided by a's own
  statistic.
\<close>

theorem percentDiff_formula:
  "map snd (percentDiff a b) =
     [percent_of_receiver (pos_mean a) (pos_mean b),
      percent_of_receiver (pos_stdev a) (pos_stdev b),
      percent_of_receiver (rot_mean a) (rot_mean b),
      percent_of_receiver (rot_stdev a) (rot_stdev b)]"
  by (simp add: percentDiff_def percent_expression)

theorem percentDiff_formula_witness:
  "map snd (percentDiff
      \<lparr>pos_mean = Fin 4, pos_stdev = Fin 2, rot_mean = Fin 10, rot_stdev = Fin 5\<rparr>
      \<lparr>pos_mean = Fin 1, pos_stdev = Fin 1, rot_mean = Fin 5, rot_stdev = Fin 6\<rparr>)
   = [Fin 75, Fin 50, Fin 50, Fin (- 20)]"
  using percentDiff_formula
    [of "\<lparr>pos_mean = Fin 4, pos_stdev = Fin 2, rot_mean = Fin 10, rot_stdev = Fin 5\<rparr>"
        "\<lparr>pos_mean = Fin 1, pos_stdev = Fin 1, rot_mean = Fin 5, rot_stdev = Fin 6\<rparr>"]
  by simp

lemma percent_of_zero: "percent_of_receiver (Fin 0) b = NonFinite"
  by (cases b) simp_all

subsection \<open>Loading measurements\<close>

lemma read_joints_from_seq:
  "numbers_of cv xs = Some vs \<Longrightarrow>
   read_joints_from cv (Some (YSeq (pre @ xs))) [length pre..<length pre + length xs] = Inr vs"
proof (induction xs arbitrary: pre vs)
  case Nil
  then show ?case by simp
next
  case (Cons x xs)
  from Cons.prems obtain v vs' where v: "number_of cv (Some x) = Some v"
    and vs': "numbers_of cv xs = Some vs'" and vs: "vs = v # vs'"
    by (auto split: option.splits)
  from v obtain s where x: "x = YScalar s" and s: "as_double cv s = Some v"
    by (auto simp: number_of_def split: yaml.splits)
  have ih: "read_joints_from cv (Some (YSeq ((pre @ [x]) @ xs)))
              [length (pre @ [x])..<length (pre @ [x]) + length xs] = Inr vs'"
    using Cons.IH [OF vs'] .
  have up: "[length pre..<length pre + length (x # xs)]
            = length pre # [length (pre @ [x])..<length (pre @ [x]) + length xs]"
    by (simp add: upt_rec)
  show ?case
    unfolding up using ih by (simp add: x s vs nth_append)
qed

lemma read_joints_seq:
  "numbers_of cv xs = Some vs \<Longrightarrow> read_joints cv (Some (YSeq xs)) = Inr vs"
  using read_joints_from_seq [of cv xs vs "[]"] by (simp add: read_joints_def)

lemma length_numbers_of: "numbers_of cv xs = Some vs \<Longrightarrow> length vs = length xs"
  by (induction xs arbitrary: vs) (auto split: option.splits)

lemma length_those: "those xs = Some ys \<Longrightarrow> length ys = length xs"
  by (induction xs arbitrary: ys) (auto split: option.splits)

lemma pose_fields_map:
  "those (map (map_of pf) keys) = Some pxs \<Longrightarrow> numbers_of cv pxs = Some vs \<Longrightarrow>
   pose_fields cv (Some (YMap pf)) keys = Inr vs"
proof (induction keys arbitrary: pxs vs)
  case Nil
  then show ?case by simp
next
  case (Cons k keys)
  then show ?case
    by (auto simp: pose_field_def number_of_def split: option.splits yaml.splits)
qed


lemma load_record_well_formed:
  assumes "record_content cv r = Some (tj, cj, p)"
  shows "\<exists>x y z qw qx qy qz. p = [x, y, z, qw, qx, qy, qz] \<and>
         load_record cv (Some r) =
           Inr \<lparr>camera_to_target =
                  rotate (translate Identity (x, y, z)) (quaternion_matrix qw qx qy qz),
                camera_chain_joints = cj, target_chain_joints = tj\<rparr>"
proof -
  from assms obtain txs cxs pxs where
    t: "joint_entries r ''target_joints'' = Some txs" "numbers_of cv txs = Some tj" and
    c: "joint_entries r ''camera_joints'' = Some cxs" "numbers_of cv cxs = Some cj" and
    p: "pose_entries r = Some pxs" "numbers_of cv pxs = Some p"
    by (auto simp: record_content_def split: option.splits)
  from t(1) obtain kvs where r: "r = YMap kvs"
    and tk: "map_of kvs ''target_joints'' = Some (YSeq txs)"
    by (auto simp: joint_entries_def split: yaml.splits option.splits)
  from c(1) r have ck: "map_of kvs ''camera_joints'' = Some (YSeq cxs)"
    by (auto simp: joint_entries_def split: yaml.splits option.splits)
  from p(1) r obtain pf where pk: "map_of kvs ''pose'' = Some (YMap pf)"
    and pxs: "those (map (map_of pf) pose_keys) = Some pxs"
    by (auto simp: pose_entries_def split: yaml.splits option.splits)
  have pf: "pose_fields cv (Some (YMap pf)) pose_keys = Inr p"
    using pose_fields_map [OF pxs p(2)] .
  have "length p = 7"
    using length_numbers_of [OF p(2)] length_those [OF pxs] by (simp add: pose_keys_def)
  then obtain x y z qw qx qy qz where p7: "p = [x, y, z, qw, qx, qy, qz]"
    by (auto simp: length_Suc_conv eval_nat_numeral)
  show ?thesis
    by (simp add: p7 [symmetric] load_record_def r tk ck pk
          read_joints_seq [OF t(2)] read_joints_seq [OF c(2)] pf)
       (simp add: p7)
qed


lemma load_records_Inr:
  "list_all (\<lambda>r. \<exists>m. load_record cv r = Inr m) rs \<Longrightarrow>
   \<exists>ms. load_records cv rs = Inr ms \<and> length ms = length rs \<and>
        (\<forall>i<length rs. load_record cv (rs ! i) = Inr (ms ! i))"
proof (induction rs)
  case Nil
  then show ?case by simp
next
  case (Cons r rs)
  then obtain m ms where m: "load_record cv r = Inr m"
    and ms: "load_records cv rs = Inr ms" "length ms = length rs"
      "\<forall>i<length rs. load_record cv (rs ! i) = Inr (ms ! i)"
    by auto
  have "\<forall>i<length (r # rs). load_record cv ((r # rs) ! i) = Inr ((m # ms) ! i)"
    using m ms(3) by (auto simp: nth_Cons split: nat.splits)
  then show ?case using m ms(1,2) by simp
qed

lemma load_records_Inl:
  "r \<in> set rs \<Longrightarrow> load_record cv r = Inl e \<Longrightarrow> \<exists>e'. load_records cv rs = Inl e'"
  by (induction rs) (auto split: sum.splits)

lemma read_joints_from_bad:
  "list_ex (\<lambda>v. number_of cv (Some v) = None) xs \<Longrightarrow>
   \<exists>e. read_joints_from cv (Some (YSeq (pre @ xs))) [length pre..<length pre + length xs] = Inl e"
proof (induction xs arbitrary: pre)
  case Nil
  then show ?case by simp
next
  case (Cons x xs)
  have up: "[length pre..<length pre + length (x # xs)]
            = length pre # [length (pre @ [x])..<length (pre @ [x]) + length xs]"
    by (simp add: upt_rec)
  show ?case
  proof (cases "number_of cv (Some x)")
    case None
    then have "\<exists>e. node_as_double cv (Some x) = Inl e"
      by (cases x) (auto simp: number_of_def split: option.splits)
    then show ?thesis unfolding up by (auto simp: nth_append)
  next
    case (Some v)
    with Cons.prems have "list_ex (\<lambda>v. number_of cv (Some v) = None) xs" by simp
    from Cons.IH [OF this, of "pre @ [x]"] obtain e where
      e: "read_joints_from cv (Some (YSeq ((pre @ [x]) @ xs)))
            [length (pre @ [x])..<length (pre @ [x]) + length xs] = Inl e" ..
    from Some obtain s where x: "x = YScalar s" and s: "as_double cv s = Some v"
      by (auto simp: number_of_def split: yaml.splits)
    show ?thesis
      unfolding up using e by (simp add: x s nth_append)
  qed
qed

lemma read_joints_bad:
  "list_ex (\<lambda>v. number_of cv (Some v) = None) xs \<Longrightarrow> \<exists>e. read_joints cv (Some (YSeq xs)) = Inl e"
  using read_joints_from_bad [of cv xs "[]"] by (simp add: read_joints_def)

lemma pose_fields_bad:
  "list_ex (\<lambda>k. number_of cv (map_of pf k) = None) keys \<Longrightarrow>
   \<exists>e. pose_fields cv (Some (YMap pf)) keys = Inl e"
proof (induction keys)
  case Nil
  then show ?case by simp
next
  case (Cons k keys)
  show ?case
  proof (cases "number_of cv (map_of pf k)")
    case None
    then have "\<exists>e. node_as_double cv (map_of pf k) = Inl e"
      by (cases "map_of pf k"; cases "the (map_of pf k)")
         (auto simp: number_of_def split: option.splits)
    then show ?thesis by (auto simp: pose_field_def)
  next
    case (Some v)
    with Cons show ?thesis by (auto split: sum.splits)
  qed
qed

lemma pose_fields_not_map:
  "(\<And>pf. pose \<noteq> Some (YMap pf)) \<Longrightarrow> \<exists>e. pose_fields cv pose pose_keys = Inl e"
  by (cases pose; cases "the pose") (auto simp: pose_keys_def pose_field_def)

lemma load_record_malformed:
  assumes "malformed_record cv r"
  shows "\<exists>e. load_record cv (Some r) = Inl e"
proof -
  have sum_cases: "\<And>x :: yaml_exception + real list. (\<exists>e. x = Inl e) \<or> (\<exists>v. x = Inr v)"
    by (metis sum.exhaust)
  show ?thesis
  proof (cases r)
    case (YMap kvs)
    consider (pose) "bad_pose cv r" | (target) "bad_sequence cv r ''target_joints''"
      | (camera) "bad_sequence cv r ''camera_joints''"
      using assms by (auto simp: malformed_record_def)
    then show ?thesis
    proof cases
      case pose
      have "\<exists>e. pose_fields cv (map_of kvs ''pose'') pose_keys = Inl e"
      proof (cases "\<exists>pf. map_of kvs ''pose'' = Some (YMap pf)")
        case True
        then obtain pf where pf: "map_of kvs ''pose'' = Some (YMap pf)" by blast
        with pose YMap have "list_ex (\<lambda>k. number_of cv (map_of pf k) = None) pose_keys"
          by (simp add: bad_pose_def)
        from pose_fields_bad [OF this] show ?thesis by (simp add: pf)
      next
        case False
        then show ?thesis by (intro pose_fields_not_map) auto
      qed
      then show ?thesis
        by (auto simp: load_record_def YMap split: sum.splits)
    next
      case target
      then obtain xs where "map_of kvs ''target_joints'' = Some (YSeq xs)"
        and "list_ex (\<lambda>v. number_of cv (Some v) = None) xs"
        by (auto simp: bad_sequence_def joint_entries_def YMap split: option.splits yaml.splits)
      with read_joints_bad [of cv xs] show ?thesis
        by (auto simp: load_record_def YMap split: sum.splits)
    next
      case camera
      then obtain xs where "map_of kvs ''camera_joints'' = Some (YSeq xs)"
        and "list_ex (\<lambda>v. number_of cv (Some v) = None) xs"
        by (auto simp: bad_sequence_def joint_entries_def YMap split: option.splits yaml.splits)
      with read_joints_bad [of cv xs] show ?thesis
        by (auto simp: load_record_def YMap split: sum.splits)
    qed
  qed (auto simp: load_record_def read_joints_def pose_keys_def pose_field_def)
qed

lemma quaternion_diag_sum:
  fixes w x y z :: real
  defines "n \<equiv> w * w + x * x + y * y + z * z" and "V \<equiv> x * x + y * y + z * z"
  shows "(case mat_mul (quaternion_matrix w x y z) (mat_transpose (quaternion_matrix w x y z)) of
           ((a, _, _), (_, e, _), (_, _, i)) \<Rightarrow> a + e + i) = 3 - 8 * (1 - n) * V"
  unfolding n_def V_def
  by (simp add: quaternion_matrix_def mat_mul_def mat_transpose_def dot_def Let_def)
     (simp add: algebra_simps)

lemma quaternion_not_orthogonal:
  fixes w x y z :: real
  assumes "w * w + x * x + y * y + z * z \<noteq> 1" and "x \<noteq> 0 \<or> y \<noteq> 0 \<or> z \<noteq> 0"
  shows "\<not> orthogonal_matrix (quaternion_matrix w x y z)"
proof
  assume "orthogonal_matrix (quaternion_matrix w x y z)"
  then have orth:
    "mat_mul (quaternion_matrix w x y z) (mat_transpose (quaternion_matrix w x y z))
       = mat_identity"
    by (simp add: orthogonal_matrix_def)
  define n where "n = w * w + x * x + y * y + z * z"
  define V where "V = x * x + y * y + z * z"
  from quaternion_diag_sum [of w x y z] orth
  have "3 - 8 * (1 - n) * V = 3"
    by (simp add: mat_identity_def n_def V_def)
  then have "(1 - n) * V = 0" by linarith
  moreover have "1 - n \<noteq> 0" using assms(1) by (simp add: n_def)
  ultimately have "V = 0" by simp
  then have "x * x + y * y + z * z = 0" by (simp add: V_def)
  then have "x = 0 \<and> y = 0 \<and> z = 0"
    by (metis add_nonneg_eq_0_iff mult_eq_0_iff zero_le_square add_nonneg_nonneg)
  with assms(2) show False by simp
qed

lemma loaded_pose:
  "rotate (translate Identity (x, y, z)) (quaternion_matrix qw qx qy qz)
   = \<lparr>iso_linear = quaternion_matrix qw qx qy qz, iso_translation = (x, y, z)\<rparr>"
  by (simp add: rotate_def translate_def Identity_def quaternion_matrix_def Let_def mat_mul_def
      mat_vec_def mat_transpose_def dot_def vadd_def mat_identity_def)

lemma load_well_formed_file:
  assumes "well_formed_file cv recs"
  shows "\<exists>ms. loadMeasurements cv (Inr (YMap recs)) = Inr ms \<and> length ms = length recs \<and>
          (\<forall>i<length recs. load_record cv (Some (snd (recs ! i))) = Inr (ms ! i))"
proof -
  have "list_all (\<lambda>r. \<exists>m. load_record cv r = Inr m) (map (\<lambda>kv. Some (snd kv)) recs)"
    unfolding list_all_iff
  proof
    fix r assume "r \<in> set (map (\<lambda>kv. Some (snd kv)) recs)"
    then obtain kv where kv: "kv \<in> set recs" and r: "r = Some (snd kv)" by auto
    from assms kv obtain tj cj p where "record_content cv (snd kv) = Some (tj, cj, p)"
      by (auto simp: well_formed_file_def list_all_iff)
    from load_record_well_formed [OF this] show "\<exists>m. load_record cv r = Inr m"
      by (auto simp: r)
  qed
  from load_records_Inr [OF this] show ?thesis
    by (auto simp: loadMeasurements_def)
qed

lemma digit_simps:
  "as_double digit_conversions ''0'' = Some 0"
  "as_double digit_conversions ''1'' = Some 1"
  "as_double digit_conversions ''2'' = Some 2"
  "as_double digit_conversions ''3'' = Some 3"
  by (simp_all add: digit_conversions_def digit_of_def)

lemma record_content_example:
  "record_content digit_conversions
     (record_node [''1'', ''2''] [] [''1'', ''2'', ''3'', ''1'', ''1'', ''0'', ''0''])
   = Some ([1, 2], [], [1, 2, 3, 1, 1, 0, 0])"
  by (simp add: record_content_def joint_entries_def pose_entries_def record_node_def
      pose_node_def pose_keys_def number_of_def digit_simps)

lemma digit_simps_more:
  "as_double digit_conversions ''4'' = Some 4"
  "as_double digit_conversions ''5'' = Some 5"
  "as_double digit_conversions ''6'' = Some 6"
  "as_double digit_conversions ''7'' = Some 7"
  "as_double digit_conversions ''8'' = Some 8"
  "as_double digit_conversions ''9'' = Some 9"
  by (simp_all add: digit_conversions_def digit_of_def)

lemma quaternion_matrix_textbook:
  "quaternion_matrix w x y z = rotation_of_quaternion w x y z"
  by (simp add: quaternion_matrix_def rotation_of_quaternion_def Let_def power2_eq_square
      algebra_simps)

lemma record_content_examples:
  "record_content digit_conversions
     (record_node [''1'', ''2''] [] [''1'', ''2'', ''3'', ''0'', ''0'', ''1'', ''0''])
   = Some ([1, 2], [], [1, 2, 3, 0, 0, 1, 0])"
  "record_content digit_conversions
     (record_node [''4''] [''5'', ''6''] [''7'', ''8'', ''9'', ''0'', ''1'', ''0'', ''0''])
   = Some ([4], [5, 6], [7, 8, 9, 0, 1, 0, 0])"
  by (simp_all add: record_content_def joint_entries_def pose_entries_def record_node_def
      pose_node_def pose_keys_def number_of_def digit_simps digit_simps_more)

lemma translate_then_rotate:
  "rotate (translate Identity (x, y, z)) r = \<lparr>iso_linear = r, iso_translation = (x, y, z)\<rparr>"
  by (simp add: rotate_def translate_def Identity_def mat_mul_def mat_vec_def
      mat_transpose_def dot_def vadd_def mat_identity_def split: prod.splits)

lemma list_of_length_2: "length xs = 2 \<Longrightarrow> xs = [xs ! 0, xs ! 1]"
  by (cases xs; cases "tl xs") auto

text \<open>
  C5. A well-formed measurement file with n records loads as n measurements in file order.
  The joint vectors of each measurement are the numbers of the record's \<open>target_joints\<close>
  and \<open>camera_joints\<close> sequences, with as many components as the sequences have entries.
  \<open>camera_to_target\<close> is the identity translated by (x, y, z) and then rotated by the
  quaternion (qw, qx, qy, qz) of the record's pose: its translation is (x, y, z) and its
  linear part is the rotation matrix of the quaternion.
\<close>

theorem loadMeasurements_well_formed:
  assumes "well_formed_file cv recs"
  shows "\<exists>ms. loadMeasurements cv (Inr (YMap recs)) = Inr ms \<and> length ms = length recs \<and>
          (\<forall>i<length recs. \<exists>txs cxs x y z qw qx qy qz.
             joint_entries (snd (recs ! i)) ''target_joints'' = Some txs \<and>
             joint_entries (snd (recs ! i)) ''camera_joints'' = Some cxs \<and>
             record_content cv (snd (recs ! i))
               = Some (target_chain_joints (ms ! i), camera_chain_joints (ms ! i),
                       [x, y, z, qw, qx, qy, qz]) \<and>
             length (target_chain_joints (ms ! i)) = length txs \<and>
             length (camera_chain_joints (ms ! i)) = length cxs \<and>
             camera_to_target (ms ! i)
               = \<lparr>iso_linear = rotation_of_quaternion qw qx qy qz,
                  iso_translation = (x, y, z)\<rparr>)"
proof -
  from load_well_formed_file [OF assms] obtain ms where
    ms: "loadMeasurements cv (Inr (YMap recs)) = Inr ms" "length ms = length recs"
      "\<forall>i<length recs. load_record cv (Some (snd (recs ! i))) = Inr (ms ! i)"
    by blast
  have "\<exists>txs cxs x y z qw qx qy qz.
             joint_entries (snd (recs ! i)) ''target_joints'' = Some txs \<and>
             joint_entries (snd (recs ! i)) ''camera_joints'' = Some cxs \<and>
             record_content cv (snd (recs ! i))
               = Some (target_chain_joints (ms ! i), camera_chain_joints (ms ! i),
                       [x, y, z, qw, qx, qy, qz]) \<and>
             length (target_chain_joints (ms ! i)) = length txs \<and>
             length (camera_chain_joints (ms ! i)) = length cxs \<and>
             camera_to_target (ms ! i)
               = \<lparr>iso_linear = rotation_of_quaternion qw qx qy qz,
                  iso_translation = (x, y, z)\<rparr>"
    if i: "i < length recs" for i
  proof -
    from assms i obtain tj cj p where rc: "record_content cv (snd (recs ! i)) = Some (tj, cj, p)"
      by (auto simp: well_formed_file_def list_all_length)
    then obtain txs cxs where
      t: "joint_entries (snd (recs ! i)) ''target_joints'' = Some txs" "numbers_of cv txs = Some tj"
      and c: "joint_entries (snd (recs ! i)) ''camera_joints'' = Some cxs"
        "numbers_of cv cxs = Some cj"
      by (auto simp: record_content_def split: option.splits)
    from load_record_well_formed [OF rc] ms(3) i obtain x y z qw qx qy qz where
      p: "p = [x, y, z, qw, qx, qy, qz]" and
      m: "ms ! i = \<lparr>camera_to_target =
                  rotate (translate Identity (x, y, z)) (quaternion_matrix qw qx qy qz),
                camera_chain_joints = cj, target_chain_joints = tj\<rparr>"
      by auto
    show ?thesis
      using t(1) c(1) rc length_numbers_of [OF t(2)] length_numbers_of [OF c(2)]
      by (simp add: m p translate_then_rotate quaternion_matrix_textbook)
  qed
  with ms(1,2) show ?thesis by blast
qed



theorem loadMeasurements_well_formed_witness:
  "loadMeasurements digit_conversions (Inr (YMap
     [(''m0'', record_node [''1'', ''2''] [] [''1'', ''2'', ''3'', ''0'', ''0'', ''1'', ''0'']),
      (''m1'', record_node [''4''] [''5'', ''6'']
                 [''7'', ''8'', ''9'', ''0'', ''1'', ''0'', ''0''])]))
   = Inr [\<lparr>camera_to_target =
             \<lparr>iso_linear = ((- 1, 0, 0), (0, 1, 0), (0, 0, - 1)), iso_translation = (1, 2, 3)\<rparr>,
           camera_chain_joints = [], target_chain_joints = [1, 2]\<rparr>,
          \<lparr>camera_to_target =
             \<lparr>iso_linear = ((1, 0, 0), (0, - 1, 0), (0, 0, - 1)), iso_translation = (7, 8, 9)\<rparr>,
           camera_chain_joints = [5, 6], target_chain_joints = [4]\<rparr>]"
proof -
  let ?r0 = "record_node [''1'', ''2''] [] [''1'', ''2'', ''3'', ''0'', ''0'', ''1'', ''0'']"
  let ?r1 = "record_node [''4''] [''5'', ''6''] [''7'', ''8'', ''9'', ''0'', ''1'', ''0'', ''0'']"
  let ?file = "[(''m0'', ?r0), (''m1'', ?r1)]"
  have wf: "well_formed_file digit_conversions ?file"
    by (simp add: well_formed_file_def record_content_examples)
  from loadMeasurements_well_formed [OF wf] obtain ms where
    load: "loadMeasurements digit_conversions (Inr (YMap ?file)) = Inr ms"
    and len: "length ms = length ?file"
    and each: "\<forall>i<length ?file. \<exists>txs cxs x y z qw qx qy qz.
             joint_entries (snd (?file ! i)) ''target_joints'' = Some txs \<and>
             joint_entries (snd (?file ! i)) ''camera_joints'' = Some cxs \<and>
             record_content digit_conversions (snd (?file ! i))
               = Some (target_chain_joints (ms ! i), camera_chain_joints (ms ! i),
                       [x, y, z, qw, qx, qy, qz]) \<and>
             length (target_chain_joints (ms ! i)) = length txs \<and>
             length (camera_chain_joints (ms ! i)) = length cxs \<and>
             camera_to_target (ms ! i)
               = \<lparr>iso_linear = rotation_of_quaternion qw qx qy qz,
                  iso_translation = (x, y, z)\<rparr>"
    by blast
  have "0 < length ?file" by simp
  with each obtain x y z qw qx qy qz where
    "record_content digit_conversions (snd (?file ! 0))
       = Some (target_chain_joints (ms ! 0), camera_chain_joints (ms ! 0),
               [x, y, z, qw, qx, qy, qz])"
    and p0: "camera_to_target (ms ! 0)
       = \<lparr>iso_linear = rotation_of_quaternion qw qx qy qz, iso_translation = (x, y, z)\<rparr>"
    by blast
  then have c0: "target_chain_joints (ms ! 0) = [1, 2]" "camera_chain_joints (ms ! 0) = []"
    "[x, y, z, qw, qx, qy, qz] = [1, 2, 3, 0, 0, 1, 0]"
    by (simp_all add: record_content_examples)
  have m0: "ms ! 0 =
      \<lparr>camera_to_target =
         \<lparr>iso_linear = ((- 1, 0, 0), (0, 1, 0), (0, 0, - 1)), iso_translation = (1, 2, 3)\<rparr>,
       camera_chain_joints = [], target_chain_joints = [1, 2]\<rparr>"
    using c0 p0 by (intro KinematicMeasurement.equality) (simp_all add: rotation_of_quaternion_def)
  have "1 < length ?file" by simp
  with each obtain x' y' z' qw' qx' qy' qz' where
    "record_content digit_conversions (snd (?file ! 1))
       = Some (target_chain_joints (ms ! 1), camera_chain_joints (ms ! 1),
               [x', y', z', qw', qx', qy', qz'])"
    and p1: "camera_to_target (ms ! 1)
       = \<lparr>iso_linear = rotation_of_quaternion qw' qx' qy' qz', iso_translation = (x', y', z')\<rparr>"
    by blast
  then have c1: "target_chain_joints (ms ! 1) = [4]" "camera_chain_joints (ms ! 1) = [5, 6]"
    "[x', y', z', qw', qx', qy', qz'] = [7, 8, 9, 0, 1, 0, 0]"
    by (simp_all add: record_content_examples)
  have m1: "ms ! 1 =
      \<lparr>camera_to_target =
         \<lparr>iso_linear = ((1, 0, 0), (0, - 1, 0), (0, 0, - 1)), iso_translation = (7, 8, 9)\<rparr>,
       camera_chain_joints = [5, 6], target_chain_joints = [4]\<rparr>"
    using c1 p1 by (intro KinematicMeasurement.equality) (simp_all add: rotation_of_quaternion_def)
  have "ms = [ms ! 0, ms ! 1]"
    using len by (intro list_of_length_2) simp
  with load m0 m1 show ?thesis by simp
qed

text \<open>
  C10. A record whose pose quaternion is not of unit norm is loaded all the same, and
  nothing is normalised: the linear part of the stored \<open>camera_to_target\<close> is the matrix
  of the raw coefficients. Whenever the vector part of such a quaternion is not zero, that
  linear part is not orthogonal, so it is not a rotation matrix.
\<close>

theorem loadMeasurements_raw_quaternion:
  assumes "well_formed_file cv recs" and "i < length recs"
    and "record_content cv (snd (recs ! i)) = Some (tj, cj, [x, y, z, qw, qx, qy, qz])"
    and "qw * qw + qx * qx + qy * qy + qz * qz \<noteq> 1"
  shows "\<exists>ms. loadMeasurements cv (Inr (YMap recs)) = Inr ms \<and>
          camera_to_target (ms ! i)
            = \<lparr>iso_linear = quaternion_matrix qw qx qy qz, iso_translation = (x, y, z)\<rparr> \<and>
          (qx \<noteq> 0 \<or> qy \<noteq> 0 \<or> qz \<noteq> 0 \<longrightarrow>
             \<not> orthogonal_matrix (iso_linear (camera_to_target (ms ! i))))"
proof -
  from load_well_formed_file [OF assms(1)] obtain ms where
    ms: "loadMeasurements cv (Inr (YMap recs)) = Inr ms"
      "\<forall>i<length recs. load_record cv (Some (snd (recs ! i))) = Inr (ms ! i)"
    by blast
  from load_record_well_formed [OF assms(3)] ms(2) assms(2)
  have "camera_to_target (ms ! i)
          = rotate (translate Identity (x, y, z)) (quaternion_matrix qw qx qy qz)"
    by auto
  then have m: "camera_to_target (ms ! i)
          = \<lparr>iso_linear = quaternion_matrix qw qx qy qz, iso_translation = (x, y, z)\<rparr>"
    by (simp add: loaded_pose)
  show ?thesis
    using ms(1) m quaternion_not_orthogonal [OF assms(4)] by auto
qed

theorem loadMeasurements_raw_quaternion_witness:
  "\<exists>ms. loadMeasurements digit_conversions (Inr (YMap
     [(''m0'', record_node [''1'', ''2''] [] [''1'', ''2'', ''3'', ''1'', ''1'', ''0'', ''0''])]))
       = Inr ms \<and>
     iso_linear (camera_to_target (ms ! 0)) = ((1, 0, 0), (0, - 1, - 2), (0, 2, - 1)) \<and>
     \<not> orthogonal_matrix (iso_linear (camera_to_target (ms ! 0)))"
  using loadMeasurements_raw_quaternion
    [of digit_conversions
        "[(''m0'', record_node [''1'', ''2''] [] [''1'', ''2'', ''3'', ''1'', ''1'', ''0'', ''0''])]"
        0 "[1, 2]" "[]" 1 2 3 1 1 0 0]
  by (auto simp: well_formed_file_def record_content_example quaternion_matrix_def)

text \<open>
  C2, as the specification has it, fails: a record without a \<open>target_joints\<close> entry is
  not rejected. Asking the record for the missing key gives an undefined node of size 0,
  the loop over its entries does nothing, and the measurement is stored with an empty
  joint vector.
\<close>

theorem missing_target_joints_accepted:
  "joint_entries
     (record_without_target_joints [] [''1'', ''2'', ''3'', ''1'', ''0'', ''0'', ''0''])
     ''target_joints'' = None
   \<and> loadMeasurements digit_conversions (Inr (YMap
        [(''m0'', record_without_target_joints []
                   [''1'', ''2'', ''3'', ''1'', ''0'', ''0'', ''0''])]))
     = Inr [\<lparr>camera_to_target = \<lparr>iso_linear = mat_identity, iso_translation = (1, 2, 3)\<rparr>,
             camera_chain_joints = [], target_chain_joints = []\<rparr>]"
  by (simp add: joint_entries_def record_without_target_joints_def pose_node_def
      loadMeasurements_def load_record_def read_joints_def
      pose_keys_def pose_field_def digit_simps
      rotate_def translate_def Identity_def quaternion_matrix_def mat_mul_def mat_vec_def
      mat_transpose_def dot_def vadd_def mat_identity_def)

text \<open>
  C2, amended. A file whose root is a map fails to load, with a \<open>BadFileException\<close> that
  wraps the YAML failure, as soon as one of its records is malformed in one of these ways:
  the record is not a map, it has no \<open>pose\<close> map, the pose lacks one of x, y, z, qw, qx,
  qy, qz or has a value there that is not a number, or an entry of its \<open>target_joints\<close>
  or \<open>camera_joints\<close> sequence is not a number.
\<close>

theorem loadMeasurements_malformed:
  assumes "(k, r) \<in> set recs" and "malformed_record cv r"
  shows "\<exists>e. loadMeasurements cv (Inr (YMap recs)) = Inl (BadFileException e)"
proof -
  from load_record_malformed [OF assms(2)] obtain e where "load_record cv (Some r) = Inl e" ..
  moreover have "Some r \<in> set (map (\<lambda>kv. Some (snd kv)) recs)"
    using assms(1) by force
  ultimately obtain e' where "load_records cv (map (\<lambda>kv. Some (snd kv)) recs) = Inl e'"
    using load_records_Inl by blast
  then show ?thesis by (simp add: loadMeasurements_def)
qed

theorem loadMeasurements_malformed_witness:
  "malformed_record digit_conversions
     (record_node [''1'', ''a''] [] [''1'', ''2'', ''3'', ''1'', ''0'', ''0'', ''0''])
   \<and> (\<exists>e. loadMeasurements digit_conversions (Inr (YMap
        [(''m0'', record_node [''1'', ''2''] [] [''1'', ''2'', ''3'', ''1'', ''0'', ''0'', ''0'']),
         (''m1'', record_node [''1'', ''a''] [] [''1'', ''2'', ''3'', ''1'', ''0'', ''0'', ''0''])]))
        = Inl (BadFileException e))"
proof -
  have bad: "malformed_record digit_conversions
     (record_node [''1'', ''a''] [] [''1'', ''2'', ''3'', ''1'', ''0'', ''0'', ''0''])"
    by (simp add: malformed_record_def bad_sequence_def joint_entries_def record_node_def
        number_of_def digit_conversions_def digit_of_def)
  show ?thesis
    using bad loadMeasurements_malformed [OF _ bad, of "''m1''"
        "[(''m0'', record_node [''1'', ''2''] [] [''1'', ''2'', ''3'', ''1'', ''0'', ''0'', ''0'']),
          (''m1'', record_node [''1'', ''a''] [] [''1'', ''2'', ''3'', ''1'', ''0'', ''0'', ''0''])]"]
    by simp
qed

subsection \<open>Validation\<close>

lemma getFK_matching:
  "length q = dof chain \<Longrightarrow> getFK chain q = Inr (compose_segments chain q)"
  by (simp add: getFK_def compose_segments_def dof_def)

lemma dof_with_offsets:
  "DHChain_with_offsets chain offsets = Inr chain' \<Longrightarrow> dof chain' = dof chain"
  by (auto simp: DHChain_with_offsets_def dof_def split: if_splits)

lemma variance_step_numerators:
  fixes S x m :: real
  shows "(m * x - S) * (m * x - S) - S * S * (m + 1)
         = x * x * (m * (m + 1)) - (S + x) * (S + x) * m"
  by (simp add: algebra_simps)

lemma variance_step:
  fixes Q S x m k :: real
  assumes m: "m \<noteq> 0" and k: "k \<noteq> 0" and km: "k = m + 1"
  shows "(Q / m - (S / m) * (S / m)) * m / k + (x - (S + x) / k) * (x - (S + x) / k) / m
         = (Q + x * x) / k - ((S + x) / k) * ((S + x) / k)"
proof -
  have 2: "x - (S + x) / k = (m * x - S) / k"
    using k by (simp add: field_simps km)
  have lhs: "(Q / m - (S / m) * (S / m)) * m / k + (m * x - S) / k * ((m * x - S) / k) / m
             = Q / k + ((m * x - S) * (m * x - S) - S * S * k) / (m * (k * k))"
    using m k by (simp add: field_simps)
  have rhs: "(Q + x * x) / k - ((S + x) / k) * ((S + x) / k)
             = Q / k + (x * x * (m * k) - (S + x) * (S + x) * m) / (m * (k * k))"
    using m k by (simp add: field_simps)
  show ?thesis
    unfolding 2 lhs rhs using variance_step_numerators [of m x S] by (simp add: km)
qed

text \<open>What the accumulator holds after a list of samples.\<close>

lemma foldl_acc_push:
  "foldl acc_push acc_empty xs =
     \<lparr>acc_count = length xs, acc_sum = sum_list xs,
      acc_running_variance =
        (if xs = [] then 0
         else sum_list (map (\<lambda>x. x * x) xs) / real (length xs)
              - (sum_list xs / real (length xs)) * (sum_list xs / real (length xs)))\<rparr>"
proof (induction xs rule: rev_induct)
  case Nil
  then show ?case by (simp add: acc_empty_def)
next
  case (snoc x xs)
  show ?case
  proof (cases "xs = []")
    case True
    then show ?thesis by (simp add: acc_push_def acc_empty_def)
  next
    case False
    then have n: "real (length xs) \<noteq> 0" "real (length xs) + 1 \<noteq> 0" "0 < length xs"
      by simp_all
    have "(sum_list (map (\<lambda>x. x * x) xs) / real (length xs)
            - (sum_list xs / real (length xs)) * (sum_list xs / real (length xs)))
            * real (length xs) / (real (length xs) + 1)
          + (x - (sum_list xs + x) / (real (length xs) + 1))
            * (x - (sum_list xs + x) / (real (length xs) + 1)) / real (length xs)
          = (sum_list (map (\<lambda>x. x * x) xs) + x * x) / (real (length xs) + 1)
            - ((sum_list xs + x) / (real (length xs) + 1))
              * ((sum_list xs + x) / (real (length xs) + 1))"
      by (rule variance_step [OF n(1,2)]) simp
    then have key: "acc_running_variance
            (acc_push \<lparr>acc_count = length xs, acc_sum = sum_list xs,
               acc_running_variance =
                 sum_list (map (\<lambda>x. x * x) xs) / real (length xs)
                 - (sum_list xs / real (length xs)) * (sum_list xs / real (length xs))\<rparr> x)
          = (sum_list (map (\<lambda>x. x * x) xs) + x * x) / (real (length xs) + 1)
            - ((sum_list xs + x) / (real (length xs) + 1))
              * ((sum_list xs + x) / (real (length xs) + 1))"
      using n(3) by (simp add: acc_push_def Let_def add.commute [of 1])
    have "foldl acc_push acc_empty (xs @ [x])
          = acc_push \<lparr>acc_count = length xs, acc_sum = sum_list xs,
               acc_running_variance =
                 sum_list (map (\<lambda>x. x * x) xs) / real (length xs)
                 - (sum_list xs / real (length xs)) * (sum_list xs / real (length xs))\<rparr> x"
      using False by (simp only: foldl_append foldl.simps snoc.IH if_False)
    moreover have "acc_count (acc_push \<lparr>acc_count = length xs, acc_sum = sum_list xs,
               acc_running_variance =
                 sum_list (map (\<lambda>x. x * x) xs) / real (length xs)
                 - (sum_list xs / real (length xs)) * (sum_list xs / real (length xs))\<rparr> x)
            = length (xs @ [x])"
      and "acc_sum (acc_push \<lparr>acc_count = length xs, acc_sum = sum_list xs,
               acc_running_variance =
                 sum_list (map (\<lambda>x. x * x) xs) / real (length xs)
                 - (sum_list xs / real (length xs)) * (sum_list xs / real (length xs))\<rparr> x)
            = sum_list (xs @ [x])"
      by (simp_all add: acc_push_def Let_def)
    ultimately show ?thesis
      using key by (intro accumulator_set.equality) (simp_all add: add.commute [of 1])
  qed
qed

lemma acc_mean_samples:
  "xs \<noteq> [] \<Longrightarrow> acc_mean (foldl acc_push acc_empty xs) = Fin (mean_of xs)"
  by (simp add: foldl_acc_push acc_mean_def mean_of_def)

lemma sum_squared_deviation:
  fixes c :: real
  shows "sum_list (map (\<lambda>x. (x - c)\<^sup>2) xs)
         = sum_list (map (\<lambda>x. x * x) xs) - 2 * c * sum_list xs + real (length xs) * c\<^sup>2"
  by (induction xs) (simp_all add: power2_eq_square algebra_simps)

lemma mean_squared_deviation:
  fixes xs :: "real list"
  assumes "xs \<noteq> []"
  shows "sum_list (map (\<lambda>x. x * x) xs) / real (length xs)
           - (sum_list xs / real (length xs)) * (sum_list xs / real (length xs))
         = sum_list (map (\<lambda>x. (x - sum_list xs / real (length xs))\<^sup>2) xs) / real (length xs)"
proof -
  define n where "n = real (length xs)"
  have n: "n \<noteq> 0" using assms by (simp add: n_def)
  show ?thesis
    unfolding sum_squared_deviation n_def [symmetric]
    using n by (simp add: field_simps power2_eq_square)
qed

lemma acc_stdev_samples:
  assumes "xs \<noteq> []"
  shows "fsqrt (acc_variance (foldl acc_push acc_empty xs)) = Fin (stdev_of xs)"
proof -
  have nonneg: "0 \<le> sum_list (map (\<lambda>x. (x - sum_list xs / real (length xs))\<^sup>2) xs)
                      / real (length xs)"
    by (intro divide_nonneg_nonneg sum_list_nonneg) auto
  have "acc_variance (foldl acc_push acc_empty xs)
          = Fin (sum_list (map (\<lambda>x. x * x) xs) / real (length xs)
                 - (sum_list xs / real (length xs)) * (sum_list xs / real (length xs)))"
    using assms by (simp add: foldl_acc_push acc_variance_def)
  then have "acc_variance (foldl acc_push acc_empty xs)
          = Fin (sum_list (map (\<lambda>x. (x - sum_list xs / real (length xs))\<^sup>2) xs)
                 / real (length xs))"
    by (simp only: mean_squared_deviation [OF assms])
  then show ?thesis
    using nonneg by (simp add: stdev_of_def mean_of_def)
qed

lemma acc_empty_statistics:
  "acc_mean acc_empty = NonFinite" "fsqrt (acc_variance acc_empty) = Fin 0"
  by (simp_all add: acc_mean_def acc_variance_def acc_empty_def)


lemma compare_loop_matching:
  assumes "\<forall>m\<in>set ms. length (camera_chain_joints m) = dof cc
                     \<and> length (target_chain_joints m) = dof tc"
  shows "compare_loop ad cc tc result accs ms =
     Inr (foldl acc_push (fst accs)
            (map (\<lambda>m. translation_error (spec_prediction result cc tc m) (camera_to_target m)) ms),
          foldl acc_push (snd accs)
            (map (\<lambda>m. ad (iso_linear (spec_prediction result cc tc m))
                          (iso_linear (camera_to_target m))) ms))"
  using assms
  by (induction ms arbitrary: accs)
     (simp_all add: getFK_matching Let_def predicted_camera_to_target_def spec_prediction_def
        translation_error_def)

lemma params_add_offset: "params (add_offset t row) = plus_row (params t) row"
  by (simp add: add_offset_def plus_row_def split: prod.splits)

lemma joint_type_add_offset: "joint_type (add_offset t row) = joint_type t"
  by (simp add: add_offset_def split: prod.splits)

lemma params_map2_add_offset:
  "map params (map2 add_offset ts rows) = map2 plus_row (map params ts) rows"
proof (induction ts arbitrary: rows)
  case Nil
  then show ?case by simp
next
  case (Cons t ts)
  then show ?case by (cases rows) (simp_all add: params_add_offset)
qed

lemma joint_type_map2_add_offset:
  "length rows = length ts \<Longrightarrow>
   map joint_type (map2 add_offset ts rows) = map joint_type ts"
proof (induction ts arbitrary: rows)
  case Nil
  then show ?case by simp
next
  case (Cons t ts)
  then show ?case by (cases rows) (simp_all add: joint_type_add_offset)
qed

lemma calibrated_chain:
  assumes "DHChain_with_offsets chain offsets = Inr chain'"
  shows "map params (transforms chain') = map2 plus_row (map params (transforms chain)) offsets"
    and "map joint_type (transforms chain') = map joint_type (transforms chain)"
    and "base_offset chain' = base_offset chain"
proof -
  from assms have c: "chain' = chain\<lparr>transforms := map2 add_offset (transforms chain) offsets\<rparr>"
    and l: "length offsets = length (transforms chain)"
    by (auto simp: DHChain_with_offsets_def dof_def split: if_splits)
  have t: "transforms chain' = map2 add_offset (transforms chain) offsets"
    by (simp add: c)
  show "map params (transforms chain') = map2 plus_row (map params (transforms chain)) offsets"
    unfolding t by (rule params_map2_add_offset)
  show "map joint_type (transforms chain') = map joint_type (transforms chain)"
    unfolding t by (rule joint_type_map2_add_offset [OF l])
  show "base_offset chain' = base_offset chain"
    by (simp add: c)
qed

lemma slider_offsets:
  "DHChain_with_offsets slider [(0, 0, 0, 0)] = Inr slider"
  "DHChain_with_offsets fixed_chain [] = Inr fixed_chain"
  by (simp_all add: DHChain_with_offsets_def slider_def fixed_chain_def dof_def add_offset_def)

lemma slider_prediction:
  "spec_prediction identity_result fixed_chain slider (seen_at q h)
   = \<lparr>iso_linear = mat_identity, iso_translation = (0, 0, q)\<rparr>"
  by (simp add: spec_prediction_def identity_result_def fixed_chain_def slider_def seen_at_def
      compose_segments_def createRelativeTransform_def angle_axis_matrix_def UnitX_def UnitZ_def
      rotate_def translate_def Identity_def iso_mul_def iso_inverse_def
      mat_mul_def mat_vec_def mat_transpose_def dot_def vadd_def vneg_def mat_identity_def)

lemma slider_error:
  "translation_error \<lparr>iso_linear = mat_identity, iso_translation = (0, 0, q)\<rparr>
     (camera_to_target (seen_at q' h)) = \<bar>h - q\<bar>"
  by (simp add: translation_error_def seen_at_def vnorm_def
      rotate_def translate_def Identity_def iso_mul_def iso_inverse_def
      mat_mul_def mat_vec_def mat_transpose_def dot_def vadd_def vneg_def mat_identity_def)

lemma slider_with_offset:
  "DHChain_with_offsets slider [(0, 0, 2, 0)]
   = Inr \<lparr>transforms = [\<lparr>params = (0, 0, 2, 0), joint_type = PRISMATIC,
                           joint_name = ''s'', max_limit = 1, min_limit = 0\<rparr>],
           base_offset = Identity\<rparr>"
  by (simp add: DHChain_with_offsets_def slider_def dof_def add_offset_def)

lemma fixed_chain_without_offsets:
  "DHChain_with_offsets fixed_chain [] = Inr fixed_chain"
  by (simp add: DHChain_with_offsets_def fixed_chain_def dof_def)

lemma offset_prediction:
  "camera_chain_joints m = [] \<Longrightarrow> target_chain_joints m = [q] \<Longrightarrow>
   spec_prediction offset_result fixed_chain
     \<lparr>transforms = [\<lparr>params = (0, 0, 2, 0), joint_type = PRISMATIC,
                     joint_name = ''s'', max_limit = 1, min_limit = 0\<rparr>],
      base_offset = Identity\<rparr> m
   = \<lparr>iso_linear = half_turn_x, iso_translation = (3, 1, - q - 1)\<rparr>"
  by (simp add: spec_prediction_def offset_result_def fixed_chain_def half_turn_x_def
      compose_segments_def createRelativeTransform_def angle_axis_matrix_def UnitX_def UnitZ_def
      rotate_def translate_def Identity_def iso_mul_def iso_inverse_def
      mat_mul_def mat_vec_def mat_transpose_def dot_def vadd_def vneg_def mat_identity_def)

lemma offset_errors:
  "translation_error \<lparr>iso_linear = half_turn_x, iso_translation = (3, 1, - 2)\<rparr>
     (camera_to_target measured_straight) = 0"
  "translation_error \<lparr>iso_linear = half_turn_x, iso_translation = (3, 1, - 6)\<rparr>
     (camera_to_target measured_turned) = 2"
  by (simp_all add: translation_error_def measured_straight_def measured_turned_def vnorm_def
      half_turn_x_def iso_mul_def iso_inverse_def
      mat_mul_def mat_vec_def mat_transpose_def dot_def vadd_def vneg_def mat_identity_def)

lemma offset_distances:
  "coarse_distance half_turn_x (iso_linear (camera_to_target measured_straight)) = 4"
  "coarse_distance half_turn_x (iso_linear (camera_to_target measured_turned)) = 0"
  by (simp_all add: coarse_distance_def measured_straight_def measured_turned_def
      half_turn_x_def mat_identity_def)

text \<open>
  C1. \<open>compareToMeasurements\<close> rebuilds the calibrated camera and target chains from the
  result's offset matrices: each segment's parameters are the nominal ones plus its row of
  offsets, joint types and base offset are kept. For each measurement it predicts the
  camera-to-target transform by the formula of the specification, and over a non-empty
  set it returns mean and standard deviation of the translation-error norm and of the
  angular distance between predicted and measured transform. Over an empty set the means
  are not numbers (0/0) and the deviations are 0. It calls no optimizer. The dimensions
  are assumed to fit: one offset row and one joint value for each segment.
\<close>

theorem compareToMeasurements_statistics:
  assumes "length (camera_chain_dh_offsets result) = dof initial_camera_chain"
    and "length (target_chain_dh_offsets result) = dof initial_target_chain"
    and "\<forall>m\<in>set measurements.
           length (camera_chain_joints m) = dof initial_camera_chain
           \<and> length (target_chain_joints m) = dof initial_target_chain"
  shows "\<exists>camera_chain target_chain.
     DHChain_with_offsets initial_camera_chain (camera_chain_dh_offsets result)
       = Inr camera_chain \<and>
     map params (transforms camera_chain)
       = map2 plus_row (map params (transforms initial_camera_chain))
           (camera_chain_dh_offsets result) \<and>
     map joint_type (transforms camera_chain)
       = map joint_type (transforms initial_camera_chain) \<and>
     base_offset camera_chain = base_offset initial_camera_chain \<and>
     DHChain_with_offsets initial_target_chain (target_chain_dh_offsets result)
       = Inr target_chain \<and>
     map params (transforms target_chain)
       = map2 plus_row (map params (transforms initial_target_chain))
           (target_chain_dh_offsets result) \<and>
     map joint_type (transforms target_chain)
       = map joint_type (transforms initial_target_chain) \<and>
     base_offset target_chain = base_offset initial_target_chain \<and>
     (measurements \<noteq> [] \<longrightarrow>
        compareToMeasurements angularDistance initial_camera_chain initial_target_chain result
            measurements
          = Inr \<lparr>pos_mean = Fin (mean_of (map (\<lambda>m. translation_error
                      (spec_prediction result camera_chain target_chain m) (camera_to_target m))
                    measurements)),
                 pos_stdev = Fin (stdev_of (map (\<lambda>m. translation_error
                      (spec_prediction result camera_chain target_chain m) (camera_to_target m))
                    measurements)),
                 rot_mean = Fin (mean_of (map (\<lambda>m. angularDistance
                      (iso_linear (spec_prediction result camera_chain target_chain m))
                      (iso_linear (camera_to_target m))) measurements)),
                 rot_stdev = Fin (stdev_of (map (\<lambda>m. angularDistance
                      (iso_linear (spec_prediction result camera_chain target_chain m))
                      (iso_linear (camera_to_target m))) measurements))\<rparr>) \<and>
     (measurements = [] \<longrightarrow>
        compareToMeasurements angularDistance initial_camera_chain initial_target_chain result
            measurements
          = Inr \<lparr>pos_mean = NonFinite, pos_stdev = Fin 0,
                 rot_mean = NonFinite, rot_stdev = Fin 0\<rparr>)"
proof -
  obtain cc where cc: "DHChain_with_offsets initial_camera_chain
                         (camera_chain_dh_offsets result) = Inr cc"
    using assms(1) by (simp add: DHChain_with_offsets_def)
  obtain tc where tc: "DHChain_with_offsets initial_target_chain
                         (target_chain_dh_offsets result) = Inr tc"
    using assms(2) by (simp add: DHChain_with_offsets_def)
  have "\<forall>m\<in>set measurements. length (camera_chain_joints m) = dof cc
                               \<and> length (target_chain_joints m) = dof tc"
    using assms(3) dof_with_offsets [OF cc] dof_with_offsets [OF tc] by simp
  note loop = compare_loop_matching
    [OF this, of angularDistance result "(acc_empty, acc_empty)"]
  have full: "compareToMeasurements angularDistance initial_camera_chain initial_target_chain
          result measurements
        = Inr \<lparr>pos_mean = Fin (mean_of (map (\<lambda>m. translation_error
                   (spec_prediction result cc tc m) (camera_to_target m)) measurements)),
              pos_stdev = Fin (stdev_of (map (\<lambda>m. translation_error
                   (spec_prediction result cc tc m) (camera_to_target m)) measurements)),
              rot_mean = Fin (mean_of (map (\<lambda>m. angularDistance
                   (iso_linear (spec_prediction result cc tc m))
                   (iso_linear (camera_to_target m))) measurements)),
              rot_stdev = Fin (stdev_of (map (\<lambda>m. angularDistance
                   (iso_linear (spec_prediction result cc tc m))
                   (iso_linear (camera_to_target m))) measurements))\<rparr>"
    if "measurements \<noteq> []"
    using that loop
    by (simp add: compareToMeasurements_def cc tc acc_mean_samples acc_stdev_samples)
  have none: "compareToMeasurements angularDistance initial_camera_chain initial_target_chain
          result measurements
        = Inr \<lparr>pos_mean = NonFinite, pos_stdev = Fin 0,
               rot_mean = NonFinite, rot_stdev = Fin 0\<rparr>"
    if "measurements = []"
    using that by (simp add: compareToMeasurements_def cc tc acc_empty_statistics)
  show ?thesis
    using cc tc calibrated_chain [OF cc] calibrated_chain [OF tc] full none by blast
qed

theorem compareToMeasurements_statistics_witness:
  "compareToMeasurements coarse_distance fixed_chain slider offset_result
     [measured_straight, measured_turned]
   = Inr \<lparr>pos_mean = Fin 1, pos_stdev = Fin 1, rot_mean = Fin 2, rot_stdev = Fin 2\<rparr>"
proof -
  have 1: "length (camera_chain_dh_offsets offset_result) = dof fixed_chain"
    and 2: "length (target_chain_dh_offsets offset_result) = dof slider"
    and 3: "\<forall>m\<in>set [measured_straight, measured_turned].
              length (camera_chain_joints m) = dof fixed_chain
              \<and> length (target_chain_joints m) = dof slider"
    by (simp_all add: offset_result_def fixed_chain_def slider_def dof_def
        measured_straight_def measured_turned_def)
  have offs: "camera_chain_dh_offsets offset_result = []"
    "target_chain_dh_offsets offset_result = [(0, 0, 2, 0)]"
    by (simp_all add: offset_result_def)
  have joints: "camera_chain_joints measured_straight = []"
    "target_chain_joints measured_straight = [1]"
    "camera_chain_joints measured_turned = []"
    "target_chain_joints measured_turned = [5]"
    by (simp_all add: measured_straight_def measured_turned_def)
  from compareToMeasurements_statistics [OF 1 2 3, of coarse_distance]
  show ?thesis
    by (simp add: offs slider_with_offset fixed_chain_without_offsets
        offset_prediction [OF joints(1,2)] offset_prediction [OF joints(3,4)]
        offset_errors offset_distances mean_of_def stdev_of_def)
qed

lemma perfect_fit_statistics:
  "compareToMeasurements (\<lambda>a b. 0) fixed_chain slider identity_result [seen_at 1 1]
   = Inr \<lparr>pos_mean = Fin 0, pos_stdev = Fin 0, rot_mean = Fin 0, rot_stdev = Fin 0\<rparr>"
proof -
  have joints: "\<forall>m\<in>set [seen_at 1 1]. length (camera_chain_joints m) = dof fixed_chain
                                     \<and> length (target_chain_joints m) = dof slider"
    by (simp add: fixed_chain_def slider_def dof_def seen_at_def)
  have offs: "camera_chain_dh_offsets identity_result = []"
    "target_chain_dh_offsets identity_result = [(0, 0, 0, 0)]"
    by (simp_all add: identity_result_def)
  have loop: "compare_loop (\<lambda>a b. 0) fixed_chain slider identity_result
                (acc_empty, acc_empty) [seen_at 1 1]
              = Inr (acc_push acc_empty 0, acc_push acc_empty 0)"
    using compare_loop_matching
      [OF joints, of "\<lambda>a b. 0" identity_result "(acc_empty, acc_empty)"]
    by (simp add: slider_prediction slider_error)
  show ?thesis
    by (simp add: compareToMeasurements_def offs slider_offsets loop del: compare_loop.simps)
       (simp add: acc_mean_def acc_variance_def acc_push_def acc_empty_def)
qed

text \<open>
  C9. \<open>percentDiff\<close> divides by the receiver's statistics without a guard: for every
  receiver statistic that is zero, the corresponding printed value is the result of a
  division by zero, not a number. There is no check and no error path: four values are
  printed whatever the arguments. A validation that fits perfectly gives such statistics.
\<close>

theorem percentDiff_zero_receiver:
  "(pos_mean a = Fin 0 \<longrightarrow> snd (percentDiff a b ! 0) = NonFinite)
   \<and> (pos_stdev a = Fin 0 \<longrightarrow> snd (percentDiff a b ! 1) = NonFinite)
   \<and> (rot_mean a = Fin 0 \<longrightarrow> snd (percentDiff a b ! 2) = NonFinite)
   \<and> (rot_stdev a = Fin 0 \<longrightarrow> snd (percentDiff a b ! 3) = NonFinite)
   \<and> length (percentDiff a b) = 4"
  by (simp add: percentDiff_def percent_expression percent_of_zero)

theorem percentDiff_zero_receiver_witness:
  "compareToMeasurements (\<lambda>a b. 0) fixed_chain slider identity_result [seen_at 1 1]
     = Inr \<lparr>pos_mean = Fin 0, pos_stdev = Fin 0, rot_mean = Fin 0, rot_stdev = Fin 0\<rparr>
   \<and> map snd (percentDiff
        \<lparr>pos_mean = Fin 0, pos_stdev = Fin 0, rot_mean = Fin 0, rot_stdev = Fin 0\<rparr>
        \<lparr>pos_mean = Fin 1, pos_stdev = Fin 1, rot_mean = Fin 0, rot_stdev = Fin 0\<rparr>)
     = [NonFinite, NonFinite, NonFinite, NonFinite]"
  using percentDiff_zero_receiver
    [of "\<lparr>pos_mean = Fin 0, pos_stdev = Fin 0, rot_mean = Fin 0, rot_stdev = Fin 0\<rparr>"
        "\<lparr>pos_mean = Fin 1, pos_stdev = Fin 1, rot_mean = Fin 0, rot_stdev = Fin 0\<rparr>"]
    perfect_fit_statistics
  by (simp add: percentDiff_def)

subsection \<open>Joint limits\<close>

lemma createRelativeTransform_limits:
  "createRelativeTransform (t\<lparr>max_limit := hi, min_limit := lo\<rparr>) q = createRelativeTransform t q"
  by (simp add: createRelativeTransform_def)

lemma foldl_segments_limits:
  "foldl (\<lambda>T tj. iso_mul T (createRelativeTransform (fst tj) (snd tj))) T0
     (zip (map (\<lambda>t. t\<lparr>max_limit := hi, min_limit := lo\<rparr>) ts) q)
   = foldl (\<lambda>T tj. iso_mul T (createRelativeTransform (fst tj) (snd tj))) T0 (zip ts q)"
proof (induction ts arbitrary: q T0)
  case Nil
  then show ?case by simp
next
  case (Cons t ts)
  then show ?case by (cases q) (simp_all add: createRelativeTransform_limits)
qed

lemma getFK_limits: "getFK (with_limits lo hi chain) q = getFK chain q"
  by (simp add: getFK_def with_limits_def compose_segments_def dof_def foldl_segments_limits)

lemma add_offset_limits:
  "add_offset (t\<lparr>max_limit := hi, min_limit := lo\<rparr>) row
   = (add_offset t row)\<lparr>max_limit := hi, min_limit := lo\<rparr>"
  by (simp add: add_offset_def split: prod.splits)

lemma map2_add_offset_limits:
  "map2 add_offset (map (\<lambda>t. t\<lparr>max_limit := hi, min_limit := lo\<rparr>) ts) offsets
   = map (\<lambda>t. t\<lparr>max_limit := hi, min_limit := lo\<rparr>) (map2 add_offset ts offsets)"
proof (induction ts arbitrary: offsets)
  case Nil
  then show ?case by simp
next
  case (Cons t ts)
  then show ?case by (cases offsets) (simp_all add: add_offset_limits)
qed

lemma with_offsets_limits:
  "DHChain_with_offsets (with_limits lo hi chain) offsets
   = (case DHChain_with_offsets chain offsets of
        Inl e \<Rightarrow> Inl e | Inr c \<Rightarrow> Inr (with_limits lo hi c))"
  by (simp add: DHChain_with_offsets_def with_limits_def dof_def map2_add_offset_limits)

lemma compare_loop_limits:
  "compare_loop ad (with_limits lo hi cc) (with_limits lo' hi' tc) result accs ms
   = compare_loop ad cc tc result accs ms"
  by (induction ms arbitrary: accs) (auto simp: getFK_limits Let_def split: sum.splits)

lemma compareToMeasurements_limits:
  "compareToMeasurements ad (with_limits lo hi c0) (with_limits lo' hi' t0) result ms
   = compareToMeasurements ad c0 t0 result ms"
  by (simp add: compareToMeasurements_def with_offsets_limits compare_loop_limits
      split: sum.splits)

lemma compareToMeasurements_completes:
  assumes "length (camera_chain_dh_offsets result) = dof c0"
    and "length (target_chain_dh_offsets result) = dof t0"
    and "\<forall>m\<in>set ms. length (camera_chain_joints m) = dof c0
                     \<and> length (target_chain_joints m) = dof t0"
  shows "\<exists>stats. compareToMeasurements ad c0 t0 result ms = Inr stats"
proof -
  obtain cc where cc: "DHChain_with_offsets c0 (camera_chain_dh_offsets result) = Inr cc"
    using assms(1) by (simp add: DHChain_with_offsets_def)
  obtain tc where tc: "DHChain_with_offsets t0 (target_chain_dh_offsets result) = Inr tc"
    using assms(2) by (simp add: DHChain_with_offsets_def)
  have "\<forall>m\<in>set ms. length (camera_chain_joints m) = dof cc
                     \<and> length (target_chain_joints m) = dof tc"
    using assms(3) dof_with_offsets [OF cc] dof_with_offsets [OF tc] by simp
  from compare_loop_matching [OF this, of ad result "(acc_empty, acc_empty)"]
  show ?thesis by (simp add: compareToMeasurements_def cc tc)
qed

lemma positioner_limits:
  "map max_limit (transforms createTwoAxisPositioner) = [pi, 2 * pi]"
  "map min_limit (transforms createTwoAxisPositioner) = [- pi, - 2 * pi]"
  "dof createTwoAxisPositioner = 2"
  "base_offset createTwoAxisPositioner
     = rotate (translate Identity (2.2, 0, 1.6)) (angle_axis_matrix (pi / 2) UnitX)"
  by (simp_all add: createTwoAxisPositioner_def dof_def Let_def)

lemma slider_fk:
  "compose_segments slider [q] = \<lparr>iso_linear = mat_identity, iso_translation = (0, 0, q)\<rparr>"
  by (simp add: slider_def compose_segments_def createRelativeTransform_def
      angle_axis_matrix_def UnitX_def UnitZ_def
      rotate_def translate_def Identity_def iso_mul_def
      mat_mul_def mat_vec_def mat_transpose_def dot_def vadd_def mat_identity_def)

text \<open>
  C7. Forward kinematics and the validation pass do not look at the joint limits. For a
  joint vector of the chain's length, forward kinematics returns the composition of the
  segment transforms at the joint values as they are; \<open>compareToMeasurements\<close> returns
  statistics; and both give the same on the chain with any other limits, so no value is
  clamped to a limit or rejected for lying outside it.
\<close>

theorem joint_limits_not_enforced:
  assumes "length q = dof chain"
    and "length (camera_chain_dh_offsets result) = dof c0"
    and "length (target_chain_dh_offsets result) = dof t0"
    and "\<forall>m\<in>set ms. length (camera_chain_joints m) = dof c0
                     \<and> length (target_chain_joints m) = dof t0"
  shows "getFK chain q = Inr (compose_segments chain q)
       \<and> getFK (with_limits lo hi chain) q = getFK chain q
       \<and> (\<exists>stats. compareToMeasurements ad c0 t0 result ms = Inr stats)
       \<and> compareToMeasurements ad (with_limits lo hi c0) (with_limits lo' hi' t0) result ms
           = compareToMeasurements ad c0 t0 result ms"
  using getFK_matching [OF assms(1)] getFK_limits [of lo hi chain q]
    compareToMeasurements_completes [OF assms(2-4), of ad]
    compareToMeasurements_limits [of ad lo hi c0 lo' hi' t0 result ms]
  by simp

theorem joint_limits_not_enforced_witness:
  "map max_limit (transforms slider) = [1]
   \<and> getFK slider [5] = Inr \<lparr>iso_linear = mat_identity, iso_translation = (0, 0, 5)\<rparr>
   \<and> getFK (with_limits 0 10 slider) [5] = getFK slider [5]
   \<and> (\<exists>stats. compareToMeasurements (\<lambda>a b. 0) fixed_chain slider identity_result
                 [seen_at 1 1, seen_at 5 7] = Inr stats)"
proof -
  have 1: "length [5 :: real] = dof slider"
    by (simp add: slider_def dof_def)
  have 2: "length (camera_chain_dh_offsets identity_result) = dof fixed_chain"
    and 3: "length (target_chain_dh_offsets identity_result) = dof slider"
    and 4: "\<forall>m\<in>set [seen_at 1 1, seen_at 5 7].
              length (camera_chain_joints m) = dof fixed_chain
              \<and> length (target_chain_joints m) = dof slider"
    by (simp_all add: identity_result_def fixed_chain_def slider_def dof_def seen_at_def)
  have 5: "map max_limit (transforms slider) = [1]"
    by (simp add: slider_def)
  from joint_limits_not_enforced [OF 1 2 3 4, of 0 10 "\<lambda>a b. 0" 0 10] 5
  show ?thesis
    by (simp add: slider_fk)
qed

subsection \<open>Equality of observations\<close>

lemma dsub_self: "dsub a a = (if is_finite a then Finite 0 else NaN)"
  by (cases a) simp_all

lemma foldl_dadd_NaN: "foldl dadd NaN v = NaN"
  by (induction v) simp_all

lemma foldl_dadd_finite:
  "list_all is_finite v \<Longrightarrow>
   foldl dadd (Finite s) (map (\<lambda>a. dmul a a) v)
   = Finite (s + sum_list (map (\<lambda>a. case a of Finite r \<Rightarrow> r * r | _ \<Rightarrow> 0) v))"
proof (induction v arbitrary: s)
  case Nil
  then show ?case by simp
next
  case (Cons a v)
  then show ?case by (cases a) (simp_all add: add.assoc)
qed

lemma squaredNorm_finite:
  assumes "list_all is_finite v"
  shows "\<exists>s. squaredNorm v = Finite s \<and> 0 \<le> s"
proof -
  have "0 \<le> sum_list (map (\<lambda>a. case a of Finite r \<Rightarrow> r * r | _ \<Rightarrow> 0) v)"
    by (intro sum_list_nonneg) (auto split: double.splits)
  then show ?thesis
    using foldl_dadd_finite [OF assms, of 0] by (simp add: squaredNorm_def)
qed

lemma foldl_dadd_zeros:
  "list_all is_finite v \<Longrightarrow> foldl dadd (Finite 0) (map (\<lambda>a. dmul a a) (map2 dsub v v)) = Finite 0"
  by (induction v) (simp_all add: dsub_self)

lemma foldl_dadd_difference_NaN:
  "\<not> list_all is_finite v \<Longrightarrow> foldl dadd acc (map (\<lambda>a. dmul a a) (map2 dsub v v)) = NaN"
proof (induction v arbitrary: acc)
  case Nil
  then show ?case by simp
next
  case (Cons a v)
  show ?case
  proof (cases "is_finite a")
    case True
    with Cons show ?thesis by simp
  next
    case False
    then have "dadd acc (dmul (dsub a a) (dsub a a)) = NaN"
      by (cases acc) (simp_all add: dsub_self)
    then show ?thesis by (simp add: foldl_dadd_NaN)
  qed
qed

lemma isApprox_self: "isApprox v v = Some (list_all is_finite v)"
proof (cases "list_all is_finite v")
  case True
  from squaredNorm_finite [OF True] obtain s where s: "squaredNorm v = Finite s" "0 \<le> s"
    by blast
  have "squaredNorm (map2 dsub v v) = Finite 0"
    unfolding squaredNorm_def using True by (rule foldl_dadd_zeros)
  then show ?thesis
    using True s by (simp add: isApprox_def dmin_def)
next
  case False
  then have "squaredNorm (map2 dsub v v) = NaN"
    unfolding squaredNorm_def by (rule foldl_dadd_difference_NaN)
  then show ?thesis
    using False by (simp add: isApprox_def)
qed

lemma Correspondence_eq_self: "Correspondence_eq c c = Some (finite_correspondence c)"
  by (cases "list_all is_finite (in_image c)")
     (simp_all add: Correspondence_eq_def isApprox_self finite_correspondence_def)

lemma elements_eq_self: "elements_eq cs cs = Some (list_all finite_correspondence cs)"
proof (induction cs)
  case Nil
  then show ?case by simp
next
  case (Cons c cs)
  then show ?case
    by (cases "finite_correspondence c") (simp_all add: Correspondence_eq_self)
qed

lemma Set_eq_self: "Set_eq cs cs = Some (list_all finite_correspondence cs)"
  by (simp add: Set_eq_def elements_eq_self)

text \<open>
  C8, as stated, fails: two observations with approximately equal joint vectors, and even
  the same correspondence set, compare unequal when a coordinate of the left operand's
  correspondence set is NaN, since Eigen's \<open>isApprox\<close> of such a vector with itself is
  false.
\<close>

theorem NaN_correspondence_compares_unequal:
  "isApprox [] [] = Some True
   \<and> isApprox [Finite 1, Finite 2] [Finite 1, Finite 2] = Some True
   \<and> KinematicObservation_eq
       \<lparr>correspondence_set =
          [\<lparr>in_image = [NaN, Finite 2], in_target = [Finite 0, Finite 0, Finite 0]\<rparr>],
        obs_camera_chain_joints = [], obs_target_chain_joints = [Finite 1, Finite 2]\<rparr>
       \<lparr>correspondence_set =
          [\<lparr>in_image = [NaN, Finite 2], in_target = [Finite 0, Finite 0, Finite 0]\<rparr>],
        obs_camera_chain_joints = [], obs_target_chain_joints = [Finite 1, Finite 2]\<rparr>
     = Some False"
  by (simp add: KinematicObservation_eq_def Set_eq_def Correspondence_eq_def isApprox_def
      squaredNorm_def dmin_def)

text \<open>
  C8, amended. For two kinematic observations whose camera joints and whose target joints
  are approximately equal, the outcome of \<open>==\<close> does not depend on the right operand's
  correspondence set at all, and it is true exactly when every coordinate of the left
  operand's own correspondence set is finite (neither NaN nor an infinity): the operator
  compares the correspondence set of its left operand with itself.
\<close>

theorem KinematicObservation_eq_ignores_correspondences:
  assumes "isApprox (obs_camera_chain_joints a) (obs_camera_chain_joints b) = Some True"
    and "isApprox (obs_target_chain_joints a) (obs_target_chain_joints b) = Some True"
  shows "KinematicObservation_eq (a\<lparr>correspondence_set := cs\<rparr>) (b\<lparr>correspondence_set := cs'\<rparr>)
         = Some (list_all finite_correspondence cs)"
  using assms by (simp add: KinematicObservation_eq_def Set_eq_self)

theorem KinematicObservation_eq_ignores_correspondences_witness:
  "Set_eq [\<lparr>in_image = [Finite 1, Finite 2], in_target = [Finite 0, Finite 0, Finite 0]\<rparr>] []
     = Some False
   \<and> KinematicObservation_eq
       \<lparr>correspondence_set =
          [\<lparr>in_image = [Finite 1, Finite 2], in_target = [Finite 0, Finite 0, Finite 0]\<rparr>],
        obs_camera_chain_joints = [], obs_target_chain_joints = [Finite 1, Finite 2]\<rparr>
       \<lparr>correspondence_set = [],
        obs_camera_chain_joints = [], obs_target_chain_joints = [Finite 1, Finite 2]\<rparr>
     = Some True"
proof -
  have 1: "isApprox [] [] = Some True"
    and 2: "isApprox [Finite 1, Finite 2] [Finite 1, Finite 2] = Some True"
    by (simp_all add: isApprox_self)
  from KinematicObservation_eq_ignores_correspondences
    [of "\<lparr>correspondence_set = [], obs_camera_chain_joints = [],
          obs_target_chain_joints = [Finite 1, Finite 2]\<rparr>"
        "\<lparr>correspondence_set = [], obs_camera_chain_joints = [],
          obs_target_chain_joints = [Finite 1, Finite 2]\<rparr>"
        "[\<lparr>in_image = [Finite 1, Finite 2], in_target = [Finite 0, Finite 0, Finite 0]\<rparr>]"
        "[]"] 1 2
  show ?thesis by (simp add: Set_eq_def finite_correspondence_def)
qed

subsection \<open>Masks and the optimizer\<close>

lemma fold_update_other:
  "i \<notin> fst ` set ivs \<Longrightarrow> fold (\<lambda>iv ys. ys[fst iv := snd iv]) ivs xs ! i = xs ! i"
  by (induction ivs arbitrary: xs) auto

lemma length_fold_update:
  "length (fold (\<lambda>iv ys. ys[fst iv := snd iv]) ivs xs) = length xs"
  by (induction ivs arbitrary: xs) auto

lemma embed_frozen: "i \<in> set frozen \<Longrightarrow> embed frozen full free ! i = full ! i"
proof -
  assume "i \<in> set frozen"
  then have "i \<notin> fst ` set (zip (free_indices (length full) frozen) free)"
    by (auto simp: free_indices_def dest!: set_zip_leftD)
  then show ?thesis by (simp add: embed_def fold_update_other)
qed

lemma length_embed: "length (embed frozen full free) = length full"
  by (simp add: embed_def length_fold_update)

lemma project_frozen:
  "i \<in> set frozen \<Longrightarrow> project frozen (full[i := v]) = project frozen full"
proof -
  assume i: "i \<in> set frozen"
  have "full[i := v] ! j = full ! j" if "j \<in> set (free_indices (length full) frozen)" for j
  proof -
    from that i have "i \<noteq> j" by (auto simp: free_indices_def)
    then show ?thesis by simp
  qed
  then show ?thesis by (simp add: project_def)
qed

lemma length_embed_all: "length (embed_all groups frees) = length groups"
  by (induction groups frees rule: embed_all.induct) simp_all

lemma embed_all_agree:
  "k < length groups \<Longrightarrow>
   frozen_agree (fst (groups ! k)) (snd (groups ! k)) (embed_all groups frees ! k)"
proof (induction groups frees arbitrary: k rule: embed_all.induct)
  case (1 frees)
  then show ?case by simp
next
  case (2 g gs)
  then show ?case by (cases k) (simp_all add: frozen_agree_def list_all_iff)
next
  case (3 g gs free frees)
  then show ?case
    by (cases k) (simp_all add: frozen_agree_def list_all_iff embed_frozen length_embed)
qed

lemma list_of_length_8:
  "length xs = 8 \<Longrightarrow> \<exists>a b c d e f g h. xs = [a, b, c, d, e, f, g, h]"
  by (auto simp: length_Suc_conv eval_nat_numeral)

lemma final_unknowns_agree:
  assumes "length (mask problem) = 8" and "k < 8"
  shows "frozen_agree (mask problem ! k) (initial_unknowns b problem ! k)
           (final_unknowns b problem ! k)"
proof -
  define groups where "groups = zip (mask problem) (initial_unknowns b problem)"
  have len: "length groups = 8"
    using assms(1) by (simp add: groups_def initial_unknowns_def)
  have k: "k < length groups" using len assms(2) by simp
  have g: "groups ! k = (mask problem ! k, initial_unknowns b problem ! k)"
    using k by (simp add: groups_def)
  have "final_unknowns b problem = embed_all groups (snd (solve b (solver_input b problem)))"
    by (simp add: final_unknowns_def optimize_unknowns_def groups_def solver_input_def
        split: prod.splits)
  then show ?thesis
    using embed_all_agree [OF k, of "snd (solve b (solver_input b problem))"] g by simp
qed

lemma offsets_vector_rows:
  "length v = 4 * n \<Longrightarrow> offsets_vector (offset_rows v) = v"
proof (induction n arbitrary: v)
  case 0
  then show ?case by (simp add: offsets_vector_def)
next
  case (Suc n)
  from Suc.prems have "length v = Suc (Suc (Suc (Suc (4 * n))))" by simp
  then obtain d theta r alpha rest where v: "v = d # theta # r # alpha # rest"
    and rest: "length rest = 4 * n"
    by (auto simp: length_Suc_conv)
  from Suc.IH [OF rest] show ?case by (simp add: v offsets_vector_def)
qed

lemma translation_vector_pose_of:
  "length t = 3 \<Longrightarrow> translation_vector (pose_of b t r) = t"
  by (auto simp: translation_vector_def pose_of_def length_Suc_conv eval_nat_numeral)

lemma length_translation_vector: "length (translation_vector T) = 3"
  by (simp add: translation_vector_def split: prod.splits)

lemma frozen_agree_all:
  assumes "frozen_agree frozen before after" and "fully_frozen frozen (length before)"
  shows "after = before"
proof (rule nth_equalityI)
  show "length after = length before" using assms(1) by (simp add: frozen_agree_def)
next
  fix i assume "i < length after"
  then have i: "i < length before" using assms(1) by (simp add: frozen_agree_def)
  then have "i \<in> set frozen" using assms(2) by (simp add: fully_frozen_def list_all_iff)
  then show "after ! i = before ! i"
    using assms(1) i by (simp add: frozen_agree_def list_all_iff)
qed

lemma isometry_of_parts:
  "translation_vector T = translation_vector T' \<Longrightarrow> iso_linear T = iso_linear T' \<Longrightarrow>
   T = (T' :: isometry)"
  by (cases T, cases T') (auto simp: translation_vector_def split: prod.splits)

text \<open>The run of \<open>optimize\<close> on a consistent problem, piece by piece.\<close>

lemma optimize_run:
  assumes "dimensions_consistent problem"
  shows "\<exists>g0 g1 g2 g3 g4 g5 g6 g7.
     final_unknowns b problem = [g0, g1, g2, g3, g4, g5, g6, g7]
     \<and> optimize b problem =
        (if terminated_by_convergence (solver_report b problem)
            \<and> jacobian_rank_deficient b (final_unknowns b problem)
         then Inl CovarianceError
         else Inr \<lparr>converged = terminated_by_convergence (solver_report b problem),
                   initial_cost_per_obs =
                     fdiv (Fin (initial_cost (solver_report b problem)))
                          (Fin (real (length (observations problem)))),
                   final_cost_per_obs =
                     fdiv (Fin (final_cost (solver_report b problem)))
                          (Fin (real (length (observations problem)))),
                   camera_mount_to_camera = pose_of b g2 g3,
                   target_mount_to_target = pose_of b g4 g5,
                   camera_base_to_target_base = pose_of b g6 g7,
                   camera_chain_dh_offsets = offset_rows g0,
                   target_chain_dh_offsets = offset_rows g1,
                   covariance = estimate_covariance b (final_unknowns b problem)\<rparr>)"
proof -
  define groups where "groups = zip (mask problem) (initial_unknowns b problem)"
  obtain summary final where
    run: "optimize_unknowns (solve b) groups = (summary, final)"
    by (cases "optimize_unknowns (solve b) groups")
  have summary: "solver_report b problem = summary"
    using run
    by (auto simp: optimize_unknowns_def solver_report_def solver_input_def groups_def
        split: prod.splits)
  have final: "final_unknowns b problem = final"
    using run by (simp add: final_unknowns_def groups_def)
  have "length groups = 8"
    using assms by (simp add: groups_def dimensions_consistent_def initial_unknowns_def)
  then have "length final = 8"
    using run by (auto simp: optimize_unknowns_def length_embed_all split: prod.splits)
  from list_of_length_8 [OF this] obtain g0 g1 g2 g3 g4 g5 g6 g7 where
    gs: "final = [g0, g1, g2, g3, g4, g5, g6, g7]" by blast
  have "optimize b problem =
        (if terminated_by_convergence summary \<and> jacobian_rank_deficient b final
         then Inl CovarianceError
         else Inr \<lparr>converged = terminated_by_convergence summary,
                   initial_cost_per_obs =
                     fdiv (Fin (initial_cost summary))
                          (Fin (real (length (observations problem)))),
                   final_cost_per_obs =
                     fdiv (Fin (final_cost summary))
                          (Fin (real (length (observations problem)))),
                   camera_mount_to_camera = pose_of b g2 g3,
                   target_mount_to_target = pose_of b g4 g5,
                   camera_base_to_target_base = pose_of b g6 g7,
                   camera_chain_dh_offsets = offset_rows g0,
                   target_chain_dh_offsets = offset_rows g1,
                   covariance = estimate_covariance b final\<rparr>)"
    using assms run [unfolded groups_def] by (simp add: optimize_def gs)
  then show ?thesis
    unfolding summary final using gs by blast
qed

lemma optimize_consistent: "optimize b problem = Inr r \<Longrightarrow> dimensions_consistent problem"
  by (simp add: optimize_def split: if_splits)

lemma solver_input_frozen:
  assumes "length (mask problem) = 8" and "k < 8" and "i \<in> set (mask problem ! k)"
  shows "map (\<lambda>g. project (fst g) (snd g))
           (zip (mask problem)
                ((initial_unknowns b problem)[k := (initial_unknowns b problem ! k)[i := v]]))
         = solver_input b problem"
proof -
  let ?us = "initial_unknowns b problem"
  have len: "length ?us = 8" by (simp add: initial_unknowns_def)
  have k: "k < length (zip (mask problem) ?us)" using assms(1,2) len by simp
  have "zip (mask problem) (?us[k := (?us ! k)[i := v]])
        = (zip (mask problem) ?us)[k := (mask problem ! k, (?us ! k)[i := v])]"
    using assms(1,2) len
    by (intro nth_equalityI) (auto simp: nth_list_update)
  then have "map (\<lambda>g. project (fst g) (snd g)) (zip (mask problem) (?us[k := (?us ! k)[i := v]]))
        = (map (\<lambda>g. project (fst g) (snd g)) (zip (mask problem) ?us))
            [k := project (mask problem ! k) ((?us ! k)[i := v])]"
    by (simp add: map_update)
  also have "\<dots> = map (\<lambda>g. project (fst g) (snd g)) (zip (mask problem) ?us)"
    using k assms(1,2,3) len by (simp add: project_frozen list_update_same_conv)
  finally show ?thesis by (simp add: solver_input_def)
qed

lemma optimize_result:
  assumes "optimize b problem = Inr r"
  shows "\<exists>g0 g1 g2 g3 g4 g5 g6 g7.
     final_unknowns b problem = [g0, g1, g2, g3, g4, g5, g6, g7]
     \<and> camera_mount_to_camera r = pose_of b g2 g3
     \<and> target_mount_to_target r = pose_of b g4 g5
     \<and> camera_base_to_target_base r = pose_of b g6 g7
     \<and> camera_chain_dh_offsets r = offset_rows g0
     \<and> target_chain_dh_offsets r = offset_rows g1"
proof -
  from optimize_run [OF optimize_consistent [OF assms], of b]
  obtain g0 g1 g2 g3 g4 g5 g6 g7 where
    gs: "final_unknowns b problem = [g0, g1, g2, g3, g4, g5, g6, g7]"
    and run: "optimize b problem =
        (if terminated_by_convergence (solver_report b problem)
            \<and> jacobian_rank_deficient b (final_unknowns b problem)
         then Inl CovarianceError
         else Inr \<lparr>converged = terminated_by_convergence (solver_report b problem),
                   initial_cost_per_obs =
                     fdiv (Fin (initial_cost (solver_report b problem)))
                          (Fin (real (length (observations problem)))),
                   final_cost_per_obs =
                     fdiv (Fin (final_cost (solver_report b problem)))
                          (Fin (real (length (observations problem)))),
                   camera_mount_to_camera = pose_of b g2 g3,
                   target_mount_to_target = pose_of b g4 g5,
                   camera_base_to_target_base = pose_of b g6 g7,
                   camera_chain_dh_offsets = offset_rows g0,
                   target_chain_dh_offsets = offset_rows g1,
                   covariance = estimate_covariance b (final_unknowns b problem)\<rparr>)"
    by blast
  from run assms have
    "r = \<lparr>converged = terminated_by_convergence (solver_report b problem),
          initial_cost_per_obs =
            fdiv (Fin (initial_cost (solver_report b problem)))
                 (Fin (real (length (observations problem)))),
          final_cost_per_obs =
            fdiv (Fin (final_cost (solver_report b problem)))
                 (Fin (real (length (observations problem)))),
          camera_mount_to_camera = pose_of b g2 g3,
          target_mount_to_target = pose_of b g4 g5,
          camera_base_to_target_base = pose_of b g6 g7,
          camera_chain_dh_offsets = offset_rows g0,
          target_chain_dh_offsets = offset_rows g1,
          covariance = estimate_covariance b (final_unknowns b problem)\<rparr>"
    by (simp split: if_splits)
  then have "camera_mount_to_camera r = pose_of b g2 g3"
    "target_mount_to_target r = pose_of b g4 g5"
    "camera_base_to_target_base r = pose_of b g6 g7"
    "camera_chain_dh_offsets r = offset_rows g0"
    "target_chain_dh_offsets r = offset_rows g1"
    by simp_all
  with gs show ?thesis by blast
qed

lemma frozen_offsets:
  assumes "frozen_agree frozen (replicate (4 * n) 0) g"
  shows "frozen_agree frozen (replicate (4 * n) 0) (offsets_vector (offset_rows g))"
proof -
  have "length g = 4 * n" using assms by (simp add: frozen_agree_def)
  from offsets_vector_rows [OF this] assms show ?thesis by simp
qed

lemma frozen_translation:
  assumes "frozen_agree frozen (translation_vector T) t"
  shows "frozen_agree frozen (translation_vector T) (translation_vector (pose_of b t r))"
proof -
  have "length t = 3" using assms by (simp add: frozen_agree_def length_translation_vector)
  from translation_vector_pose_of [OF this, of b r] assms show ?thesis by simp
qed

lemma frozen_pose:
  assumes t: "frozen_agree ft (translation_vector T) t"
    and r: "frozen_agree fr (rotation_vector b (iso_linear T)) v"
    and "fully_frozen ft 3"
    and "fully_frozen fr (length (rotation_vector b (iso_linear T)))"
    and "rotation_of_vector b (rotation_vector b (iso_linear T)) = iso_linear T"
  shows "pose_of b t v = T"
proof -
  have t': "t = translation_vector T"
    using frozen_agree_all [OF t] assms(3) by (simp add: length_translation_vector)
  have v': "v = rotation_vector b (iso_linear T)"
    using frozen_agree_all [OF r] assms(4) by simp
  have "translation_vector (pose_of b t v) = translation_vector T"
    using translation_vector_pose_of [of t b v] t' by (simp add: length_translation_vector)
  moreover have "iso_linear (pose_of b t v) = iso_linear T"
    using assms(5) v' by (simp add: pose_of_def)
  ultimately show ?thesis by (rule isometry_of_parts)
qed

text \<open>The example problem, evaluated.\<close>

lemma positioner_dof: "dof createTwoAxisPositioner = 2"
  by (simp add: createTwoAxisPositioner_def dof_def Let_def)

lemma last_row_mask:
  "createDHMask ((replicate 2 (replicate 4 False))[2 - 1 := replicate 4 True]) = [4, 5, 6, 7]"
  by code_simp

lemma example_mask:
  "mask example_problem = [ [], [4, 5, 6, 7], [], [], [], [], [0, 1, 2], [0, 1, 2]]"
  unfolding example_problem_def main_problem_def Let_def positioner_dof last_row_mask
  by simp

lemma example_chains:
  "dof (camera_chain example_problem) = 0" "dof (target_chain example_problem) = 2"
proof -
  show "dof (camera_chain example_problem) = 0"
    by (simp add: example_problem_def main_problem_def Let_def dof_def)
  show "dof (target_chain example_problem) = 2"
    by (simp add: example_problem_def main_problem_def Let_def positioner_dof)
qed

lemma example_observations: "length (observations example_problem) = 2"
  by (simp add: example_problem_def main_problem_def Let_def example_measurements_def)

lemma example_consistent: "dimensions_consistent example_problem"
  unfolding dimensions_consistent_def example_mask example_chains
  by (simp add: example_problem_def main_problem_def Let_def example_measurements_def)

lemma rational_examples:
  "rational_vector quarter_turn_z = [0, 0, 1]"
  "rational_vector mat_identity = [0, 0, 0]"
  "rational_rotation [0, 0, 1] = quarter_turn_z"
  by (simp_all add: rational_vector_def rational_rotation_def quarter_turn_z_def
      mat_identity_def)

lemma example_guesses:
  "camera_mount_to_camera_guess example_problem
     = \<lparr>iso_linear = quarter_turn_z, iso_translation = (1, 2, 3)\<rparr>"
  "target_mount_to_target_guess example_problem
     = \<lparr>iso_linear = mat_identity, iso_translation = (0, 0, 1)\<rparr>"
  "camera_base_to_target_base_guess example_problem
     = \<lparr>iso_linear = quarter_turn_z, iso_translation = (4, 5, 6)\<rparr>"
  by (simp_all add: example_problem_def main_problem_def Let_def)

lemma example_initial:
  "initial_unknowns stalled_backend example_problem
   = [ [], [0, 0, 0, 0, 0, 0, 0, 0], [1, 2, 3], [0, 0, 1], [0, 0, 1], [0, 0, 0],
       [4, 5, 6], [0, 0, 1]]"
  unfolding initial_unknowns_def example_chains example_guesses
  by (simp add: stalled_backend_def translation_vector_def rational_examples eval_nat_numeral)

lemma project_examples:
  "project [] [] = []"
  "project [4, 5, 6, 7] [0, 0, 0, 0, 0, 0, 0, 0] = [0, 0, 0, 0]"
  "project [] [a, b, c] = [a, b, c]"
  "project [0, 1, 2] [a, b, c] = []"
  "project [0, Suc 0, 2] [a, b, c] = []"
  by (simp_all add: project_def free_indices_def upt_conv_Cons)

lemma example_input:
  "solver_input stalled_backend example_problem
   = [ [], [0, 0, 0, 0], [1, 2, 3], [0, 0, 1], [0, 0, 1], [0, 0, 0], [], []]"
  unfolding solver_input_def example_initial example_mask
  by (simp add: project_examples)

lemma embed_examples:
  "embed [] [] [] = []"
  "embed [4, 5, 6, 7] [0, 0, 0, 0, 0, 0, 0, 0] [p, q, r, s] = [p, q, r, s, 0, 0, 0, 0]"
  "embed [] [a, b, c] [p, q, r] = [p, q, r]"
  "embed [0, 1, 2] [a, b, c] [] = [a, b, c]"
  "embed [0, Suc 0, 2] [a, b, c] [] = [a, b, c]"
  by (simp_all add: embed_def free_indices_def upt_conv_Cons)

lemma example_final:
  "final_unknowns stalled_backend example_problem
   = [ [], [10, 10, 10, 10, 0, 0, 0, 0], [11, 12, 13], [10, 10, 11], [10, 10, 11],
       [10, 10, 10], [4, 5, 6], [0, 0, 1]]"
proof -
  have "solve stalled_backend (solver_input stalled_backend example_problem)
        = (\<lparr>terminated_by_convergence = False, initial_cost = 8, final_cost = 2\<rparr>,
           [ [], [10, 10, 10, 10], [11, 12, 13], [10, 10, 11], [10, 10, 11], [10, 10, 10],
             [], []])"
    unfolding example_input by (simp add: stalled_backend_def stalled_solver_def)
  then show ?thesis
    unfolding final_unknowns_def optimize_unknowns_def solver_input_def
    unfolding example_initial example_mask
    by (simp add: embed_examples)
qed

lemma example_report:
  "solver_report stalled_backend example_problem
   = \<lparr>terminated_by_convergence = False, initial_cost = 8, final_cost = 2\<rparr>"
  by (simp add: solver_report_def stalled_backend_def stalled_solver_def)

lemma converging_example:
  "terminated_by_convergence (solver_report converging_backend example_problem)"
  "jacobian_rank_deficient converging_backend unknowns"
  by (simp_all add: solver_report_def converging_backend_def stalled_backend_def
      converging_solver_def)

lemma example_run:
  "\<exists>r. optimize stalled_backend example_problem = Inr r \<and> converged r = False"
  using optimize_run [OF example_consistent, of stalled_backend]
  unfolding example_report by auto

text \<open>
  C3. For every run of \<open>optimize\<close> that returns a result, whether the solver converged
  or not, every component that a mask marks as frozen has in the result the value it had
  before the optimization. A masked entry of a chain's offsets is 0 as before the run. A
  masked translation component of each of the three transforms is that of the guess. The
  rotation of each transform is the one of the final rotation parameters, whose masked
  components are those of the guess's rotation parameters; so a transform whose six
  components are all masked is the guess itself, provided the guess's rotation is the
  rotation of its own parameters. And the solver never sees a frozen component: what it
  is given is the same for any other value of that component.
\<close>

theorem frozen_components_unchanged:
  assumes "optimize b problem = Inr r"
  shows "frozen_agree (mask problem ! 0) (replicate (4 * dof (camera_chain problem)) 0)
           (offsets_vector (camera_chain_dh_offsets r))
       \<and> frozen_agree (mask problem ! 1) (replicate (4 * dof (target_chain problem)) 0)
           (offsets_vector (target_chain_dh_offsets r))
       \<and> frozen_agree (mask problem ! 2)
           (translation_vector (camera_mount_to_camera_guess problem))
           (translation_vector (camera_mount_to_camera r))
       \<and> frozen_agree (mask problem ! 4)
           (translation_vector (target_mount_to_target_guess problem))
           (translation_vector (target_mount_to_target r))
       \<and> frozen_agree (mask problem ! 6)
           (translation_vector (camera_base_to_target_base_guess problem))
           (translation_vector (camera_base_to_target_base r))
       \<and> iso_linear (camera_mount_to_camera r)
           = rotation_of_vector b (final_unknowns b problem ! 3)
       \<and> frozen_agree (mask problem ! 3)
           (rotation_vector b (iso_linear (camera_mount_to_camera_guess problem)))
           (final_unknowns b problem ! 3)
       \<and> iso_linear (target_mount_to_target r)
           = rotation_of_vector b (final_unknowns b problem ! 5)
       \<and> frozen_agree (mask problem ! 5)
           (rotation_vector b (iso_linear (target_mount_to_target_guess problem)))
           (final_unknowns b problem ! 5)
       \<and> iso_linear (camera_base_to_target_base r)
           = rotation_of_vector b (final_unknowns b problem ! 7)
       \<and> frozen_agree (mask problem ! 7)
           (rotation_vector b (iso_linear (camera_base_to_target_base_guess problem)))
           (final_unknowns b problem ! 7)
       \<and> (fully_frozen (mask problem ! 2) 3
            \<and> fully_frozen (mask problem ! 3)
                (length (rotation_vector b (iso_linear (camera_mount_to_camera_guess problem))))
            \<and> rotation_of_vector b
                (rotation_vector b (iso_linear (camera_mount_to_camera_guess problem)))
              = iso_linear (camera_mount_to_camera_guess problem)
          \<longrightarrow> camera_mount_to_camera r = camera_mount_to_camera_guess problem)
       \<and> (fully_frozen (mask problem ! 4) 3
            \<and> fully_frozen (mask problem ! 5)
                (length (rotation_vector b (iso_linear (target_mount_to_target_guess problem))))
            \<and> rotation_of_vector b
                (rotation_vector b (iso_linear (target_mount_to_target_guess problem)))
              = iso_linear (target_mount_to_target_guess problem)
          \<longrightarrow> target_mount_to_target r = target_mount_to_target_guess problem)
       \<and> (fully_frozen (mask problem ! 6) 3
            \<and> fully_frozen (mask problem ! 7)
                (length (rotation_vector b
                           (iso_linear (camera_base_to_target_base_guess problem))))
            \<and> rotation_of_vector b
                (rotation_vector b (iso_linear (camera_base_to_target_base_guess problem)))
              = iso_linear (camera_base_to_target_base_guess problem)
          \<longrightarrow> camera_base_to_target_base r = camera_base_to_target_base_guess problem)
       \<and> (k < 8 \<and> i \<in> set (mask problem ! k)
          \<longrightarrow> map (\<lambda>g. project (fst g) (snd g))
                (zip (mask problem)
                     ((initial_unknowns b problem)
                        [k := (initial_unknowns b problem ! k)[i := v]]))
              = solver_input b problem)"
proof -
  have dims: "dimensions_consistent problem" using assms by (rule optimize_consistent)
  then have len: "length (mask problem) = 8" by (simp add: dimensions_consistent_def)
  from optimize_result [OF assms] obtain g0 g1 g2 g3 g4 g5 g6 g7 where
    gs: "final_unknowns b problem = [g0, g1, g2, g3, g4, g5, g6, g7]"
    and r: "camera_mount_to_camera r = pose_of b g2 g3"
      "target_mount_to_target r = pose_of b g4 g5"
      "camera_base_to_target_base r = pose_of b g6 g7"
      "camera_chain_dh_offsets r = offset_rows g0"
      "target_chain_dh_offsets r = offset_rows g1"
    by blast
  have a0: "frozen_agree (mask problem ! 0) (replicate (4 * dof (camera_chain problem)) 0) g0"
    using final_unknowns_agree [OF len, of 0 b] by (simp add: gs initial_unknowns_def)
  have a1: "frozen_agree (mask problem ! 1) (replicate (4 * dof (target_chain problem)) 0) g1"
    using final_unknowns_agree [OF len, of 1 b] by (simp add: gs initial_unknowns_def)
  have a2: "frozen_agree (mask problem ! 2)
              (translation_vector (camera_mount_to_camera_guess problem)) g2"
    using final_unknowns_agree [OF len, of 2 b] by (simp add: gs initial_unknowns_def)
  have a3: "frozen_agree (mask problem ! 3)
              (rotation_vector b (iso_linear (camera_mount_to_camera_guess problem))) g3"
    using final_unknowns_agree [OF len, of 3 b] by (simp add: gs initial_unknowns_def)
  have a4: "frozen_agree (mask problem ! 4)
              (translation_vector (target_mount_to_target_guess problem)) g4"
    using final_unknowns_agree [OF len, of 4 b] by (simp add: gs initial_unknowns_def)
  have a5: "frozen_agree (mask problem ! 5)
              (rotation_vector b (iso_linear (target_mount_to_target_guess problem))) g5"
    using final_unknowns_agree [OF len, of 5 b] by (simp add: gs initial_unknowns_def)
  have a6: "frozen_agree (mask problem ! 6)
              (translation_vector (camera_base_to_target_base_guess problem)) g6"
    using final_unknowns_agree [OF len, of 6 b] by (simp add: gs initial_unknowns_def)
  have a7: "frozen_agree (mask problem ! 7)
              (rotation_vector b (iso_linear (camera_base_to_target_base_guess problem))) g7"
    using final_unknowns_agree [OF len, of 7 b] by (simp add: gs initial_unknowns_def)
  have c0: "frozen_agree (mask problem ! 0) (replicate (4 * dof (camera_chain problem)) 0)
              (offsets_vector (camera_chain_dh_offsets r))"
    unfolding r by (rule frozen_offsets [OF a0])
  have c1: "frozen_agree (mask problem ! 1) (replicate (4 * dof (target_chain problem)) 0)
              (offsets_vector (target_chain_dh_offsets r))"
    unfolding r by (rule frozen_offsets [OF a1])
  have c2: "frozen_agree (mask problem ! 2)
              (translation_vector (camera_mount_to_camera_guess problem))
              (translation_vector (camera_mount_to_camera r))"
    unfolding r by (rule frozen_translation [OF a2])
  have c4: "frozen_agree (mask problem ! 4)
              (translation_vector (target_mount_to_target_guess problem))
              (translation_vector (target_mount_to_target r))"
    unfolding r by (rule frozen_translation [OF a4])
  have c6: "frozen_agree (mask problem ! 6)
              (translation_vector (camera_base_to_target_base_guess problem))
              (translation_vector (camera_base_to_target_base r))"
    unfolding r by (rule frozen_translation [OF a6])
  have l3: "iso_linear (camera_mount_to_camera r)
            = rotation_of_vector b (final_unknowns b problem ! 3)"
    and l5: "iso_linear (target_mount_to_target r)
            = rotation_of_vector b (final_unknowns b problem ! 5)"
    and l7: "iso_linear (camera_base_to_target_base r)
            = rotation_of_vector b (final_unknowns b problem ! 7)"
    by (simp_all add: r gs pose_of_def)
  have f3: "frozen_agree (mask problem ! 3)
              (rotation_vector b (iso_linear (camera_mount_to_camera_guess problem)))
              (final_unknowns b problem ! 3)"
    and f5: "frozen_agree (mask problem ! 5)
              (rotation_vector b (iso_linear (target_mount_to_target_guess problem)))
              (final_unknowns b problem ! 5)"
    and f7: "frozen_agree (mask problem ! 7)
              (rotation_vector b (iso_linear (camera_base_to_target_base_guess problem)))
              (final_unknowns b problem ! 7)"
    using a3 a5 a7 by (simp_all add: gs)
  have p1: "fully_frozen (mask problem ! 2) 3
            \<and> fully_frozen (mask problem ! 3)
                (length (rotation_vector b (iso_linear (camera_mount_to_camera_guess problem))))
            \<and> rotation_of_vector b
                (rotation_vector b (iso_linear (camera_mount_to_camera_guess problem)))
              = iso_linear (camera_mount_to_camera_guess problem)
          \<longrightarrow> camera_mount_to_camera r = camera_mount_to_camera_guess problem"
    unfolding r using frozen_pose [OF a2 a3] by blast
  have p2: "fully_frozen (mask problem ! 4) 3
            \<and> fully_frozen (mask problem ! 5)
                (length (rotation_vector b (iso_linear (target_mount_to_target_guess problem))))
            \<and> rotation_of_vector b
                (rotation_vector b (iso_linear (target_mount_to_target_guess problem)))
              = iso_linear (target_mount_to_target_guess problem)
          \<longrightarrow> target_mount_to_target r = target_mount_to_target_guess problem"
    unfolding r using frozen_pose [OF a4 a5] by blast
  have p3: "fully_frozen (mask problem ! 6) 3
            \<and> fully_frozen (mask problem ! 7)
                (length (rotation_vector b
                           (iso_linear (camera_base_to_target_base_guess problem))))
            \<and> rotation_of_vector b
                (rotation_vector b (iso_linear (camera_base_to_target_base_guess problem)))
              = iso_linear (camera_base_to_target_base_guess problem)
          \<longrightarrow> camera_base_to_target_base r = camera_base_to_target_base_guess problem"
    unfolding r using frozen_pose [OF a6 a7] by blast
  have s: "k < 8 \<and> i \<in> set (mask problem ! k)
          \<longrightarrow> map (\<lambda>g. project (fst g) (snd g))
                (zip (mask problem)
                     ((initial_unknowns b problem)
                        [k := (initial_unknowns b problem ! k)[i := v]]))
              = solver_input b problem"
    using solver_input_frozen [OF len, of k i b v] by blast
  from c0 c1 c2 c4 c6 l3 f3 l5 f5 l7 f7 p1 p2 p3 s show ?thesis
    by (intro conjI)
qed

theorem frozen_components_unchanged_witness:
  "\<exists>r. optimize stalled_backend example_problem = Inr r
     \<and> converged r = False
     \<and> mask example_problem = [ [], [4, 5, 6, 7], [], [], [], [], [0, 1, 2], [0, 1, 2]]
     \<and> camera_chain_dh_offsets r = []
     \<and> target_chain_dh_offsets r = [(10, 10, 10, 10), (0, 0, 0, 0)]
     \<and> translation_vector (camera_mount_to_camera_guess example_problem) = [1, 2, 3]
     \<and> translation_vector (camera_mount_to_camera r) = [11, 12, 13]
     \<and> translation_vector (target_mount_to_target_guess example_problem) = [0, 0, 1]
     \<and> translation_vector (target_mount_to_target r) = [10, 10, 11]
     \<and> camera_base_to_target_base_guess example_problem
         = \<lparr>iso_linear = quarter_turn_z, iso_translation = (4, 5, 6)\<rparr>
     \<and> camera_base_to_target_base r
         = \<lparr>iso_linear = quarter_turn_z, iso_translation = (4, 5, 6)\<rparr>
     \<and> solver_input stalled_backend example_problem
         = [ [], [0, 0, 0, 0], [1, 2, 3], [0, 0, 1], [0, 0, 1], [0, 0, 0], [], []]"
proof -
  from example_run
  obtain r where r: "optimize stalled_backend example_problem = Inr r" "converged r = False"
    by blast
  note frozen = frozen_components_unchanged [OF r(1)]
  from optimize_result [OF r(1)] have fields:
    "camera_mount_to_camera r = pose_of stalled_backend [11, 12, 13] [10, 10, 11]"
    "target_mount_to_target r = pose_of stalled_backend [10, 10, 11] [10, 10, 10]"
    "camera_chain_dh_offsets r = offset_rows []"
    "target_chain_dh_offsets r = offset_rows [10, 10, 10, 10, 0, 0, 0, 0]"
    unfolding example_final by simp_all
  have full: "fully_frozen (mask example_problem ! 6) 3"
    "fully_frozen (mask example_problem ! 7)
       (length (rotation_vector stalled_backend
                  (iso_linear (camera_base_to_target_base_guess example_problem))))"
    "rotation_of_vector stalled_backend
       (rotation_vector stalled_backend
          (iso_linear (camera_base_to_target_base_guess example_problem)))
     = iso_linear (camera_base_to_target_base_guess example_problem)"
    unfolding example_mask example_guesses
    by (simp_all add: fully_frozen_def stalled_backend_def rational_examples upt_conv_Cons)
  with frozen have
    base: "camera_base_to_target_base r = camera_base_to_target_base_guess example_problem"
    by blast
  have 1: "camera_chain_dh_offsets r = []"
    and 2: "target_chain_dh_offsets r = [(10, 10, 10, 10), (0, 0, 0, 0)]"
    and 3: "translation_vector (camera_mount_to_camera r) = [11, 12, 13]"
    and 4: "translation_vector (target_mount_to_target r) = [10, 10, 11]"
    by (simp_all add: fields translation_vector_def pose_of_def)
  have 5: "translation_vector (camera_mount_to_camera_guess example_problem) = [1, 2, 3]"
    and 6: "translation_vector (target_mount_to_target_guess example_problem) = [0, 0, 1]"
    by (simp_all add: example_guesses translation_vector_def)
  from r example_mask 1 2 5 3 6 4 example_guesses(3) base [unfolded example_guesses(3)]
    example_input
  show ?thesis by blast
qed

text \<open>
  C4. On a problem whose dimensions are consistent \<open>optimize\<close> never fails because
  the solver did not converge: it then returns a result whose \<open>converged\<close> is false.
  Its only failure is the covariance error of a run that converged with a rank-deficient
  Jacobian. Every result it returns, converged or not, carries the solver's verdict and
  the solver's initial and final sums of squared residuals divided by the number of
  observations, and \<open>printResults\<close> prints both costs in either case.
\<close>

theorem optimize_reports_nonconvergence:
  assumes "dimensions_consistent problem"
  shows "(\<not> terminated_by_convergence (solver_report b problem) \<longrightarrow>
            (\<exists>r. optimize b problem = Inr r \<and> converged r = False))
       \<and> (\<not> (terminated_by_convergence (solver_report b problem)
              \<and> jacobian_rank_deficient b (final_unknowns b problem)) \<longrightarrow>
            (\<exists>r. optimize b problem = Inr r
               \<and> converged r = terminated_by_convergence (solver_report b problem)
               \<and> initial_cost_per_obs r
                   = fdiv (Fin (initial_cost (solver_report b problem)))
                          (Fin (real (length (observations problem))))
               \<and> final_cost_per_obs r
                   = fdiv (Fin (final_cost (solver_report b problem)))
                          (Fin (real (length (observations problem))))
               \<and> printResults r
                   = [Line (''Calibration ''
                            @ (if terminated_by_convergence (solver_report b problem)
                               then ''did'' else ''did not'') @ '' converge''),
                      Number ''Initial cost per observation: ''
                             (fsqrt (initial_cost_per_obs r)),
                      Number ''Final cost per observation: ''
                             (fsqrt (final_cost_per_obs r))]))
       \<and> (terminated_by_convergence (solver_report b problem)
            \<and> jacobian_rank_deficient b (final_unknowns b problem) \<longrightarrow>
            optimize b problem = Inl CovarianceError)"
proof -
  from optimize_run [OF assms, of b]
  obtain g0 g1 g2 g3 g4 g5 g6 g7 where
    run: "optimize b problem =
        (if terminated_by_convergence (solver_report b problem)
            \<and> jacobian_rank_deficient b (final_unknowns b problem)
         then Inl CovarianceError
         else Inr \<lparr>converged = terminated_by_convergence (solver_report b problem),
                   initial_cost_per_obs =
                     fdiv (Fin (initial_cost (solver_report b problem)))
                          (Fin (real (length (observations problem)))),
                   final_cost_per_obs =
                     fdiv (Fin (final_cost (solver_report b problem)))
                          (Fin (real (length (observations problem)))),
                   camera_mount_to_camera = pose_of b g2 g3,
                   target_mount_to_target = pose_of b g4 g5,
                   camera_base_to_target_base = pose_of b g6 g7,
                   camera_chain_dh_offsets = offset_rows g0,
                   target_chain_dh_offsets = offset_rows g1,
                   covariance = estimate_covariance b (final_unknowns b problem)\<rparr>)"
    by blast
  have 1: "\<not> terminated_by_convergence (solver_report b problem) \<longrightarrow>
            (\<exists>r. optimize b problem = Inr r \<and> converged r = False)"
    by (simp add: run)
  have 2: "\<not> (terminated_by_convergence (solver_report b problem)
              \<and> jacobian_rank_deficient b (final_unknowns b problem)) \<longrightarrow>
            (\<exists>r. optimize b problem = Inr r
               \<and> converged r = terminated_by_convergence (solver_report b problem)
               \<and> initial_cost_per_obs r
                   = fdiv (Fin (initial_cost (solver_report b problem)))
                          (Fin (real (length (observations problem))))
               \<and> final_cost_per_obs r
                   = fdiv (Fin (final_cost (solver_report b problem)))
                          (Fin (real (length (observations problem))))
               \<and> printResults r
                   = [Line (''Calibration ''
                            @ (if terminated_by_convergence (solver_report b problem)
                               then ''did'' else ''did not'') @ '' converge''),
                      Number ''Initial cost per observation: ''
                             (fsqrt (initial_cost_per_obs r)),
                      Number ''Final cost per observation: ''
                             (fsqrt (final_cost_per_obs r))])"
    by (simp add: run printResults_def)
  have 3: "terminated_by_convergence (solver_report b problem)
            \<and> jacobian_rank_deficient b (final_unknowns b problem) \<longrightarrow>
            optimize b problem = Inl CovarianceError"
    by (simp add: run)
  from 1 2 3 show ?thesis by (intro conjI)
qed

theorem optimize_reports_nonconvergence_witness:
  "dimensions_consistent example_problem
   \<and> jacobian_rank_deficient stalled_backend (final_unknowns stalled_backend example_problem)
   \<and> (\<exists>r. optimize stalled_backend example_problem = Inr r
         \<and> converged r = False
         \<and> initial_cost_per_obs r = Fin 4 \<and> final_cost_per_obs r = Fin 1
         \<and> printResults r
             = [Line ''Calibration did not converge'',
                Number ''Initial cost per observation: '' (Fin 2),
                Number ''Final cost per observation: '' (Fin 1)])
   \<and> optimize converging_backend example_problem = Inl CovarianceError"
proof -
  note stalled = optimize_reports_nonconvergence [OF example_consistent, of stalled_backend]
  note converging = optimize_reports_nonconvergence [OF example_consistent, of converging_backend]
  have deficient:
    "jacobian_rank_deficient stalled_backend (final_unknowns stalled_backend example_problem)"
    by (simp add: stalled_backend_def)
  from stalled obtain r where
    r: "optimize stalled_backend example_problem = Inr r"
      "converged r = terminated_by_convergence (solver_report stalled_backend example_problem)"
      "initial_cost_per_obs r
         = fdiv (Fin (initial_cost (solver_report stalled_backend example_problem)))
                (Fin (real (length (observations example_problem))))"
      "final_cost_per_obs r
         = fdiv (Fin (final_cost (solver_report stalled_backend example_problem)))
                (Fin (real (length (observations example_problem))))"
      "printResults r
         = [Line (''Calibration ''
                  @ (if terminated_by_convergence (solver_report stalled_backend example_problem)
                     then ''did'' else ''did not'') @ '' converge''),
            Number ''Initial cost per observation: '' (fsqrt (initial_cost_per_obs r)),
            Number ''Final cost per observation: '' (fsqrt (final_cost_per_obs r))]"
    unfolding example_report by auto
  have c: "converged r = False" using r(2) by (simp add: example_report)
  have i: "initial_cost_per_obs r = Fin 4"
    using r(3) by (simp add: example_report example_observations)
  have f: "final_cost_per_obs r = Fin 1"
    using r(4) by (simp add: example_report example_observations)
  have "sqrt 4 = 2" using real_sqrt_abs [of 2] by simp
  then have p: "printResults r
             = [Line ''Calibration did not converge'',
                Number ''Initial cost per observation: '' (Fin 2),
                Number ''Final cost per observation: '' (Fin 1)]"
    using r(5) by (simp add: example_report i f)
  have e: "optimize converging_backend example_problem = Inl CovarianceError"
    using converging converging_example by blast
  from example_consistent deficient r(1) c i f p e show ?thesis by blast
qed

end
